theory Spec2Isabelle
  imports Complex_Main "HOL-Library.Word"
begin

unbundle bit_operations_syntax

section \<open>JavaScript values used by the imagery providers\<close>

text \<open>
  Tile coordinates, zoom levels, pixel sizes and spatial-reference codes are JavaScript
  numbers that hold integers; they are modelled as \<^typ>\<open>int\<close>. The bitwise operators of
  JavaScript first convert their operands with ToInt32, so their operands and results are
  \<^typ>\<open>32 word\<close>, read back as a number with \<^const>\<open>sint\<close>. A shift uses only the low five
  bits of the shift count.
\<close>

text \<open>Number-to-string conversion of an integer-valued number (template literals, \<open>+=\<close>).\<close>

fun showNat :: "nat \<Rightarrow> string" where
  "showNat n = (if n < 10 then [char_of (48 + n)] else showNat (n div 10) @ [char_of (48 + n mod 10)])"

declare showNat.simps [simp del]

definition showInt :: "int \<Rightarrow> string" where
  "showInt i = (if i < 0 then CHR ''-'' # showNat (nat (- i)) else showNat (nat i))"

text \<open>ToInt32, and the left shift \<open>a << i\<close> for an integer shift count.\<close>

definition toInt32 :: "int \<Rightarrow> 32 word" where
  "toInt32 n = word_of_int n"

definition shiftLeft :: "32 word \<Rightarrow> int \<Rightarrow> 32 word" where
  "shiftLeft a i = push_bit (nat (i mod 32)) a"

section \<open>Quadkey addressing of the Bing Maps provider\<close>

text \<open>
  The loop of \<open>tileXYToQuadKey\<close>, from \<open>i = level\<close> down to 0, with the string built so far;
  \<open>quadkey += digit\<close> appends the decimal form of the digit.
\<close>

function tileXYToQuadKey_loop :: "int \<Rightarrow> int \<Rightarrow> int \<Rightarrow> string \<Rightarrow> string" where
  "tileXYToQuadKey_loop x y i quadkey =
    (if i \<ge> 0 then
       let bitmask = shiftLeft 1 i;
           digit0 = (0 :: 32 word);
           digit1 = (if toInt32 x AND bitmask \<noteq> 0 then digit0 OR 1 else digit0);
           digit2 = (if toInt32 y AND bitmask \<noteq> 0 then digit1 OR 2 else digit1)
       in tileXYToQuadKey_loop x y (i - 1) (quadkey @ showInt (sint digit2))
     else quadkey)"
  by pat_completeness auto
termination
  by (relation "measure (\<lambda>(x, y, i, quadkey). nat (i + 1))") auto

declare tileXYToQuadKey_loop.simps [simp del]

definition tileXYToQuadKey :: "int \<Rightarrow> int \<Rightarrow> int \<Rightarrow> string" where
  "tileXYToQuadKey x y level = tileXYToQuadKey_loop x y level []"

text \<open>
  \<open>+quadkey[k]\<close> as the operand of a bitwise operator: a decimal digit gives its value, and
  any other character gives NaN or 0, which ToInt32 both turns into 0.
\<close>

definition unaryPlusChar :: "char \<Rightarrow> 32 word" where
  "unaryPlusChar c =
    (if (48 :: nat) \<le> of_char c \<and> (of_char c :: nat) \<le> 57 then of_nat (of_char c - 48) else 0)"

record TileXY =
  tileX :: int
  tileY :: int
  tileLevel :: int

text \<open>
  The loop of \<open>quadKeyToTileXY\<close>. The index \<open>level - i\<close> is within the string on every
  iteration; a read outside it would give \<open>undefined\<close>, hence 0.
\<close>

function quadKeyToTileXY_loop ::
  "string \<Rightarrow> int \<Rightarrow> int \<Rightarrow> 32 word \<Rightarrow> 32 word \<Rightarrow> 32 word \<times> 32 word" where
  "quadKeyToTileXY_loop quadkey lev i xw yw =
    (if i \<ge> 0 then
       let bitmask = shiftLeft 1 i;
           idx = nat (lev - i);
           digit = (if lev - i \<ge> 0 \<and> idx < length quadkey then unaryPlusChar (quadkey ! idx) else 0);
           xw' = (if digit AND 1 \<noteq> 0 then xw OR bitmask else xw);
           yw' = (if digit AND 2 \<noteq> 0 then yw OR bitmask else yw)
       in quadKeyToTileXY_loop quadkey lev (i - 1) xw' yw'
     else (xw, yw))"
  by pat_completeness auto
termination
  by (relation "measure (\<lambda>(quadkey, lev, i, xw, yw). nat (i + 1))") auto

declare quadKeyToTileXY_loop.simps [simp del]

definition quadKeyToTileXY :: "string \<Rightarrow> TileXY" where
  "quadKeyToTileXY quadkey =
    (let lev = int (length quadkey) - 1;
         (xw, yw) = quadKeyToTileXY_loop quadkey lev lev 0 0
     in \<lparr> tileX = sint xw, tileY = sint yw, tileLevel = lev \<rparr>)"


text \<open>The digit that one iteration of \<open>tileXYToQuadKey\<close> appends, named for the proofs.\<close>

definition quadDigit :: "int \<Rightarrow> int \<Rightarrow> int \<Rightarrow> 32 word" where
  "quadDigit x y i =
    (let bitmask = shiftLeft 1 i;
         digit0 = (0 :: 32 word);
         digit1 = (if toInt32 x AND bitmask \<noteq> 0 then digit0 OR 1 else digit0);
         digit2 = (if toInt32 y AND bitmask \<noteq> 0 then digit1 OR 2 else digit1)
     in digit2)"

section \<open>Geometry and the collaborators outside this layer\<close>

text \<open>
  Coordinates (longitude, latitude, projected metres, rectangle bounds) are JavaScript
  doubles; they are modelled as \<^typ>\<open>real\<close>, so rounding is not represented.
\<close>

record Rectangle =
  west :: real
  south :: real
  east :: real
  north :: real

datatype Cartesian2 = Cartesian2 int int

datatype Cartesian3 = Cartesian3 real real real

record Cartographic =
  longitude :: real
  latitude :: real
  height :: real

datatype Ellipsoid = Ellipsoid real real real

datatype Projection = GeographicProjection | WebMercatorProjection

text \<open>
  A tiling scheme is identified by the constructor call that made it; the argument is the
  \<open>ellipsoid\<close> option handed to the constructor (\<open>None\<close> for \<open>undefined\<close>).
\<close>

datatype TilingScheme =
  GeographicTilingScheme "Ellipsoid option"
  | WebMercatorTilingScheme "Ellipsoid option"

text \<open>
  Modelled from the spec: the \<open>projection\<close> member of a tiling scheme (the classes
  GeographicTilingScheme and WebMercatorTilingScheme are not part of the sources at hand).
  The spec gives a tiling scheme exactly one of two projections, geographic or
  web-mercator-like, carried on the scheme.
\<close>

fun projection :: "TilingScheme \<Rightarrow> Projection" where
  "projection (GeographicTilingScheme e) = GeographicProjection"
| "projection (WebMercatorTilingScheme e) = WebMercatorProjection"

datatype Credit = Credit string

datatype QueryValue = QString string | QNumber int | QBoolean bool

type_synonym Request = nat

record DerivedOptions =
  url :: string
  request :: "Request option"
  queryParameters :: "(string \<times> QueryValue) list"

text \<open>
  A resource is identified by how it was obtained: created from a URL (with the trailing
  slash appended), given extra query parameters, or derived from another resource with
  \<open>getDerivedResource\<close>.
\<close>

datatype Resource =
  Resource string
  | SetQueryParameters Resource "(string \<times> QueryValue) list"
  | DerivedResource Resource DerivedOptions

text \<open>
  The functions of the core library that the providers call and that are not part of the
  sources at hand are parameters of the model, collected in one record. A tile level
  handed to the tiling scheme is optional because \<open>build\<close> passes \<open>maximumLevel\<close>, which
  may be \<open>undefined\<close>.
\<close>

record Core =
  tilingSchemeRectangle :: "TilingScheme \<Rightarrow> Rectangle"
  maximumRadius :: "TilingScheme \<Rightarrow> real"
  tileXYToNativeRectangle :: "TilingScheme \<Rightarrow> int \<Rightarrow> int \<Rightarrow> int option \<Rightarrow> Rectangle"
  tileXYToRectangle :: "TilingScheme \<Rightarrow> int \<Rightarrow> int \<Rightarrow> int \<Rightarrow> Rectangle"
  project :: "TilingScheme \<Rightarrow> Cartographic \<Rightarrow> Cartesian3"
  unproject :: "Cartesian3 \<Rightarrow> Cartographic"
  fromDegrees :: "real \<Rightarrow> real \<Rightarrow> real \<Rightarrow> real \<Rightarrow> Rectangle"
  toDegrees :: "real \<Rightarrow> real"
  numberToString :: "real \<Rightarrow> string"
  intersection :: "Rectangle \<Rightarrow> Rectangle \<Rightarrow> Rectangle option"
  resourceUrl :: "Resource \<Rightarrow> string"

datatype Error =
  RuntimeError string
  | TypeError string
  | RequestErrorEvent int

text \<open>The \<open>message\<close> member of a thrown value; a failed request carries none.\<close>

fun errorMessage :: "Error \<Rightarrow> string option" where
  "errorMessage (RuntimeError m) = Some m"
| "errorMessage (TypeError m) = Some m"
| "errorMessage (RequestErrorEvent status) = None"

text \<open>A number that may be \<open>undefined\<close>, as a template literal prints it.\<close>

fun showOptInt :: "int option \<Rightarrow> string" where
  "showOptInt None = ''undefined''"
| "showOptInt (Some n) = showInt n"

section \<open>The ArcGIS MapServer imagery provider\<close>

record DiscardMissingTileImageOptions =
  missingImageUrl :: string
  pixelsToCheck :: "Cartesian2 list"
  disableCheckIfAllPixelsAreTransparent :: bool

datatype TileDiscardPolicy =
  NeverTileDiscardPolicy
  | DiscardEmptyTileImagePolicy
  | DiscardMissingTileImagePolicy DiscardMissingTileImageOptions

datatype CreditOption = CreditString string | CreditObject Credit

record ConstructorOptions =
  o_token :: "string option"
  o_tileDiscardPolicy :: "TileDiscardPolicy option"
  o_usePreCachedTilesIfAvailable :: "bool option"
  o_layers :: "string option"
  o_enablePickFeatures :: "bool option"
  o_rectangle :: "Rectangle option"
  o_tilingScheme :: "TilingScheme option"
  o_ellipsoid :: "Ellipsoid option"
  o_credit :: "CreditOption option"
  o_tileWidth :: "int option"
  o_tileHeight :: "int option"
  o_maximumLevel :: "int option"

definition defaultValue :: "'a option \<Rightarrow> 'a \<Rightarrow> 'a" where
  "defaultValue a b = (case a of Some v \<Rightarrow> v | None \<Rightarrow> b)"

text \<open>
  The provider object. The members \<open>_name\<close> of the source are the fields \<open>p_name\<close>;
  \<open>p_resource\<close> is the resource that \<open>fromUrl\<close> assigns right after construction.
\<close>

record ArcGisMapServerImageryProvider =
  p_tileDiscardPolicy :: "TileDiscardPolicy option"
  p_tileWidth :: int
  p_tileHeight :: int
  p_maximumLevel :: "int option"
  p_tilingScheme :: TilingScheme
  p_useTiles :: bool
  p_rectangle :: Rectangle
  p_layers :: "string option"
  p_credit :: "Credit option"
  enablePickFeatures :: bool
  p_ready :: bool
  p_resource :: Resource

text \<open>The constructor, for options without the deprecated \<open>url\<close> member.\<close>

definition newArcGisMapServerImageryProvider ::
  "Core \<Rightarrow> ConstructorOptions \<Rightarrow> Resource \<Rightarrow> ArcGisMapServerImageryProvider" where
  "newArcGisMapServerImageryProvider core options resource =
    (let scheme = defaultValue (o_tilingScheme options)
                    (GeographicTilingScheme (o_ellipsoid options))
     in \<lparr> p_tileDiscardPolicy = o_tileDiscardPolicy options,
          p_tileWidth = defaultValue (o_tileWidth options) 256,
          p_tileHeight = defaultValue (o_tileHeight options) 256,
          p_maximumLevel = o_maximumLevel options,
          p_tilingScheme = scheme,
          p_useTiles = defaultValue (o_usePreCachedTilesIfAvailable options) True,
          p_rectangle = defaultValue (o_rectangle options) (tilingSchemeRectangle core scheme),
          p_layers = o_layers options,
          p_credit = None,
          enablePickFeatures = defaultValue (o_enablePickFeatures options) True,
          p_ready = False,
          p_resource = resource \<rparr>)"

text \<open>The getter \<open>layers\<close>.\<close>

definition layers :: "ArcGisMapServerImageryProvider \<Rightarrow> string option" where
  "layers imageryProvider = p_layers imageryProvider"

text \<open>Truthiness of an optional string: defined and not empty.\<close>

definition truthy :: "string option \<Rightarrow> bool" where
  "truthy s = (case s of None \<Rightarrow> False | Some v \<Rightarrow> v \<noteq> [])"

definition buildImageResource ::
  "Core \<Rightarrow> ArcGisMapServerImageryProvider \<Rightarrow> int \<Rightarrow> int \<Rightarrow> int option \<Rightarrow> Request option
    \<Rightarrow> Resource" where
  "buildImageResource core imageryProvider tx ty lev req =
    (if p_useTiles imageryProvider then
       DerivedResource (p_resource imageryProvider)
         \<lparr> url = ''tile/'' @ showOptInt lev @ ''/'' @ showInt ty @ ''/'' @ showInt tx,
           request = req,
           queryParameters = [] \<rparr>
     else
       let nativeRectangle =
             tileXYToNativeRectangle core (p_tilingScheme imageryProvider) tx ty lev;
           bbox = numberToString core (west nativeRectangle) @ '','' @
                  numberToString core (south nativeRectangle) @ '','' @
                  numberToString core (east nativeRectangle) @ '','' @
                  numberToString core (north nativeRectangle);
           query = [(''bbox'', QString bbox),
                    (''size'', QString (showInt (p_tileWidth imageryProvider) @ '','' @
                                        showInt (p_tileHeight imageryProvider))),
                    (''format'', QString ''png32''),
                    (''transparent'', QBoolean True),
                    (''f'', QString ''image'')];
           query1 = (if projection (p_tilingScheme imageryProvider) = GeographicProjection
                     then query @ [(''bboxSR'', QNumber 4326), (''imageSR'', QNumber 4326)]
                     else query @ [(''bboxSR'', QNumber 3857), (''imageSR'', QNumber 3857)]);
           query2 = (if truthy (layers imageryProvider)
                     then query1 @ [(''layers'', QString (''show:'' @ the (layers imageryProvider)))]
                     else query1)
       in DerivedResource (p_resource imageryProvider)
            \<lparr> url = ''export'', request = req, queryParameters = query2 \<rparr>)"

record ImageryProviderBuilder =
  useTiles :: bool
  tilingScheme :: TilingScheme
  rectangle :: Rectangle
  ellipsoid :: "Ellipsoid option"
  credit :: "Credit option"
  tileDiscardPolicy :: "TileDiscardPolicy option"
  tileWidth :: int
  tileHeight :: int
  maximumLevel :: "int option"

definition newImageryProviderBuilder :: "Core \<Rightarrow> ConstructorOptions \<Rightarrow> ImageryProviderBuilder" where
  "newImageryProviderBuilder core options =
    (let scheme = defaultValue (o_tilingScheme options)
                    (GeographicTilingScheme (o_ellipsoid options))
     in \<lparr> useTiles = defaultValue (o_usePreCachedTilesIfAvailable options) True,
          tilingScheme = scheme,
          rectangle = defaultValue (o_rectangle options) (tilingSchemeRectangle core scheme),
          ellipsoid = o_ellipsoid options,
          credit = (case o_credit options of
                      Some (CreditString s) \<Rightarrow> Some (Credit s)
                    | Some (CreditObject c) \<Rightarrow> Some c
                    | None \<Rightarrow> None),
          tileDiscardPolicy = o_tileDiscardPolicy options,
          tileWidth = defaultValue (o_tileWidth options) 256,
          tileHeight = defaultValue (o_tileHeight options) 256,
          maximumLevel = o_maximumLevel options \<rparr>)"

definition build ::
  "Core \<Rightarrow> ImageryProviderBuilder \<Rightarrow> ArcGisMapServerImageryProvider
    \<Rightarrow> ArcGisMapServerImageryProvider" where
  "build core this provider =
    (let provider1 = provider
           \<lparr> p_useTiles := useTiles this,
             p_tilingScheme := tilingScheme this,
             p_rectangle := rectangle this,
             p_credit := credit this,
             p_tileDiscardPolicy := tileDiscardPolicy this,
             p_tileWidth := tileWidth this,
             p_tileHeight := tileHeight this,
             p_maximumLevel := maximumLevel this \<rparr>;
         provider2 =
           (if useTiles this \<and> tileDiscardPolicy this = None then
              provider1 \<lparr> p_tileDiscardPolicy := Some (DiscardMissingTileImagePolicy
                \<lparr> missingImageUrl =
                    resourceUrl core (buildImageResource core provider1 0 0 (maximumLevel this) None),
                  pixelsToCheck =
                    [Cartesian2 0 0, Cartesian2 200 20, Cartesian2 20 200,
                     Cartesian2 80 110, Cartesian2 160 130],
                  disableCheckIfAllPixelsAreTransparent = True \<rparr>) \<rparr>
            else provider1)
     in provider2 \<lparr> p_ready := True \<rparr>)"

text \<open>
  The capability document of a MapServer, as far as \<open>metadataSuccess\<close> reads it. A member
  that may be absent is optional; a tile-grid section, when present, has its \<open>rows\<close>,
  \<open>cols\<close>, \<open>spatialReference\<close> and \<open>lods\<close> members, as the service always sends them.
\<close>

record SpatialReference =
  wkid :: "int option"

record LOD =
  lod_level :: int
  lod_resolution :: real
  lod_scale :: real

record TileInfo =
  rows :: int
  cols :: int
  ti_spatialReference :: SpatialReference
  lods :: "LOD list"

record FullExtent =
  xmin :: real
  ymin :: real
  xmax :: real
  ymax :: real
  fe_spatialReference :: "SpatialReference option"

record MapServerData =
  tileInfo :: "TileInfo option"
  fullExtent :: "FullExtent option"
  copyrightText :: "string option"

text \<open>
  \<open>metadataSuccess\<close>, lines 596 to 614 of the source: tile size, tiling scheme and maximum
  level from the tile-grid section. A \<open>throw\<close> is the result \<open>Inl\<close>; the builder is then
  abandoned by both callers, so the fields already assigned are not returned.
\<close>

definition metadataTileInfo ::
  "TileInfo \<Rightarrow> ImageryProviderBuilder \<Rightarrow> Error + ImageryProviderBuilder" where
  "metadataTileInfo ti imageryProviderBuilder =
    (let b1 = imageryProviderBuilder \<lparr> tileWidth := rows ti, tileHeight := cols ti \<rparr>;
         code = wkid (ti_spatialReference ti)
     in if code = Some 102100 \<or> code = Some 102113 then
          Inr (b1 \<lparr> tilingScheme := WebMercatorTilingScheme (ellipsoid b1),
                    maximumLevel := Some (int (length (lods ti)) - 1) \<rparr>)
        else if code = Some 4326 then
          Inr (b1 \<lparr> tilingScheme := GeographicTilingScheme (ellipsoid b1),
                    maximumLevel := Some (int (length (lods ti)) - 1) \<rparr>)
        else
          Inl (RuntimeError
            (''Tile spatial reference WKID '' @ showOptInt code @ '' is not supported.'')))"

text \<open>\<open>metadataSuccess\<close>, lines 616 to 678: the provider rectangle from the data extent.\<close>

definition metadataFullExtent ::
  "Core \<Rightarrow> FullExtent option \<Rightarrow> ImageryProviderBuilder \<Rightarrow> Error + ImageryProviderBuilder" where
  "metadataFullExtent core fe imageryProviderBuilder =
    (case fe of
       Some extent \<Rightarrow>
         (case fe_spatialReference extent of
            Some sr \<Rightarrow>
              (case wkid sr of
                 Some code \<Rightarrow>
                   if code = 102100 \<or> code = 102113 then
                     let r = maximumRadius core (tilingScheme imageryProviderBuilder);
                         sw = unproject core
                                (Cartesian3 (max (xmin extent) (- r * pi))
                                            (max (ymin extent) (- r * pi)) 0);
                         ne = unproject core
                                (Cartesian3 (min (xmax extent) (r * pi))
                                            (min (ymax extent) (r * pi)) 0)
                     in Inr (imageryProviderBuilder
                          \<lparr> rectangle := \<lparr> west = longitude sw, south = latitude sw,
                                           east = longitude ne, north = latitude ne \<rparr> \<rparr>)
                   else if code = 4326 then
                     Inr (imageryProviderBuilder
                          \<lparr> rectangle := fromDegrees core (xmin extent) (ymin extent)
                                           (xmax extent) (ymax extent) \<rparr>)
                   else
                     Inl (RuntimeError
                       (''fullExtent.spatialReference WKID '' @ showInt code @
                        '' is not supported.''))
               | None \<Rightarrow> Inr imageryProviderBuilder)
          | None \<Rightarrow> Inr imageryProviderBuilder)
     | None \<Rightarrow>
         Inr (imageryProviderBuilder
               \<lparr> rectangle := tilingSchemeRectangle core (tilingScheme imageryProviderBuilder) \<rparr>))"

text \<open>\<open>metadataSuccess\<close>, lines 683 to 685: the credit from the copyright text.\<close>

definition metadataCopyright :: "MapServerData \<Rightarrow> ImageryProviderBuilder \<Rightarrow> ImageryProviderBuilder" where
  "metadataCopyright data imageryProviderBuilder =
    (case copyrightText data of
       Some t \<Rightarrow>
         if length t > 0 then imageryProviderBuilder \<lparr> credit := Some (Credit t) \<rparr>
         else imageryProviderBuilder
     | None \<Rightarrow> imageryProviderBuilder)"

definition metadataSuccess ::
  "Core \<Rightarrow> MapServerData \<Rightarrow> ImageryProviderBuilder \<Rightarrow> Error + ImageryProviderBuilder" where
  "metadataSuccess core data imageryProviderBuilder =
    (case tileInfo data of
       None \<Rightarrow> Inr (metadataCopyright data (imageryProviderBuilder \<lparr> useTiles := False \<rparr>))
     | Some ti \<Rightarrow>
         (case metadataTileInfo ti imageryProviderBuilder of
            Inl e \<Rightarrow> Inl e
          | Inr b1 \<Rightarrow>
              (case metadataFullExtent core (fullExtent data) b1 of
                 Inl e \<Rightarrow> Inl e
               | Inr b2 \<Rightarrow> Inr (metadataCopyright data (b2 \<lparr> useTiles := True \<rparr>)))))"

text \<open>
  \<open>metadataFailure\<close> builds the message and throws it as a RuntimeError; raising the error
  event has no effect on what the functions below return and is not represented.
\<close>

definition metadataFailure :: "Resource \<Rightarrow> Core \<Rightarrow> Error \<Rightarrow> Error" where
  "metadataFailure resource core error =
    (let message = ''An error occurred while accessing '' @ resourceUrl core resource
     in case errorMessage error of
          Some m \<Rightarrow> RuntimeError (message @ '': '' @ m)
        | None \<Rightarrow> RuntimeError message)"

text \<open>
  The transport. Every invocation is appended to a log; what the server answers is a
  parameter. An \<open>await\<close> is the point where the answer is taken from the server.
\<close>

datatype Fetch = FetchJsonp Resource | FetchJson Resource

definition requestMetadata ::
  "Core \<Rightarrow> (Resource \<Rightarrow> Error + MapServerData) \<Rightarrow> Resource \<Rightarrow> ImageryProviderBuilder
    \<Rightarrow> Fetch list \<Rightarrow> (Error + ImageryProviderBuilder) \<times> Fetch list" where
  "requestMetadata core server resource imageryProviderBuilder fetched =
    (let jsonResource = DerivedResource resource
           \<lparr> url = [], request = None, queryParameters = [(''f'', QString ''json'')] \<rparr>;
         fetched1 = fetched @ [FetchJsonp jsonResource]
     in case server jsonResource of
          Inl error \<Rightarrow> (Inl (metadataFailure resource core error), fetched1)
        | Inr data \<Rightarrow>
            (case metadataSuccess core data imageryProviderBuilder of
               Inl error \<Rightarrow> (Inl (metadataFailure resource core error), fetched1)
             | Inr b \<Rightarrow> (Inr b, fetched1)))"

definition fromUrl ::
  "Core \<Rightarrow> (Resource \<Rightarrow> Error + MapServerData) \<Rightarrow> string \<Rightarrow> ConstructorOptions
    \<Rightarrow> Fetch list \<Rightarrow> (Error + ArcGisMapServerImageryProvider) \<times> Fetch list" where
  "fromUrl core server address options fetched =
    (let resource = (case o_token options of
                       Some t \<Rightarrow> SetQueryParameters (Resource address) [(''token'', QString t)]
                     | None \<Rightarrow> Resource address);
         provider = newArcGisMapServerImageryProvider core options resource;
         imageryProviderBuilder = newImageryProviderBuilder core options
     in if defaultValue (o_usePreCachedTilesIfAvailable options) True then
          (case requestMetadata core server resource imageryProviderBuilder fetched of
             (Inl error, fetched1) \<Rightarrow> (Inl error, fetched1)
           | (Inr b, fetched1) \<Rightarrow> (Inr (build core b provider), fetched1))
        else (Inr (build core imageryProviderBuilder provider), fetched))"

text \<open>\<open>getTileCredits\<close> of the ArcGIS provider; \<open>None\<close> is \<open>undefined\<close>.\<close>

definition getTileCredits ::
  "ArcGisMapServerImageryProvider \<Rightarrow> int \<Rightarrow> int \<Rightarrow> int \<Rightarrow> Credit list option" where
  "getTileCredits this tx ty lev = None"

text \<open>
  \<open>pickFeatures\<close> returns \<open>undefined\<close> (\<open>None\<close>) or the promise of the identify request. The
  promise is represented by the resource that was fetched; the function that turns the
  answer into feature infos runs after the request and is not part of this development.
\<close>

definition pickFeatures ::
  "Core \<Rightarrow> ArcGisMapServerImageryProvider \<Rightarrow> int \<Rightarrow> int \<Rightarrow> int \<Rightarrow> real \<Rightarrow> real
    \<Rightarrow> Fetch list \<Rightarrow> Resource option \<times> Fetch list" where
  "pickFeatures core this tx ty lev lon lat fetched =
    (if \<not> enablePickFeatures this then (None, fetched)
     else
       let rect = tileXYToNativeRectangle core (p_tilingScheme this) tx ty (Some lev);
           (horizontal, vertical, sr) =
             (if projection (p_tilingScheme this) = GeographicProjection then
                (numberToString core (toDegrees core lon),
                 numberToString core (toDegrees core lat), ''4326'')
              else
                (case project core (p_tilingScheme this)
                        \<lparr> longitude = lon, latitude = lat, height = 0 \<rparr> of
                   Cartesian3 px py pz \<Rightarrow>
                     (numberToString core px, numberToString core py, ''3857'')));
           layerFilter = (case p_layers this of
                            Some l \<Rightarrow> ''visible'' @ '':'' @ l
                          | None \<Rightarrow> ''visible'');
           query = [(''f'', QString ''json''),
                    (''tolerance'', QNumber 2),
                    (''geometryType'', QString ''esriGeometryPoint''),
                    (''geometry'', QString (horizontal @ '','' @ vertical)),
                    (''mapExtent'', QString
                       (numberToString core (west rect) @ '','' @
                        numberToString core (south rect) @ '','' @
                        numberToString core (east rect) @ '','' @
                        numberToString core (north rect))),
                    (''imageDisplay'', QString
                       (showInt (p_tileWidth this) @ '','' @ showInt (p_tileHeight this) @ '',96'')),
                    (''sr'', QString sr),
                    (''layers'', QString layerFilter)];
           resource = DerivedResource (p_resource this)
                        \<lparr> url = ''identify'', request = None, queryParameters = query \<rparr>
       in (Some resource, fetched @ [FetchJson resource]))"

section \<open>The Bing Maps imagery provider\<close>

text \<open>
  An attribution entry after \<open>build\<close>: its credit has been created and the bounding box of
  each coverage area is a rectangle.
\<close>

record CoverageArea =
  zoomMin :: int
  zoomMax :: int
  bbox :: Rectangle

record Attribution =
  attributionCredit :: Credit
  coverageAreas :: "CoverageArea list"

text \<open>The inner loop of \<open>getRectangleAttribution\<close>; it stops as soon as \<open>included\<close> is set.\<close>

fun coverageAreasLoop :: "Core \<Rightarrow> int \<Rightarrow> Rectangle \<Rightarrow> CoverageArea list \<Rightarrow> bool \<Rightarrow> bool" where
  "coverageAreasLoop core lev rect [] included = included"
| "coverageAreasLoop core lev rect (area # rest) included =
    (if \<not> included then
       coverageAreasLoop core lev rect rest
         (if lev \<ge> zoomMin area \<and> lev \<le> zoomMax area then
            (if intersection core rect (bbox area) \<noteq> None then True else included)
          else included)
     else included)"

text \<open>The outer loop, with the result array as accumulator.\<close>

fun attributionLoop ::
  "Core \<Rightarrow> int \<Rightarrow> Rectangle \<Rightarrow> Attribution list \<Rightarrow> Credit list \<Rightarrow> Credit list" where
  "attributionLoop core lev rect [] result = result"
| "attributionLoop core lev rect (attribution # rest) result =
    (let included = coverageAreasLoop core lev rect (coverageAreas attribution) False
     in attributionLoop core lev rect rest
          (if included then result @ [attributionCredit attribution] else result))"

definition getRectangleAttribution ::
  "Core \<Rightarrow> Attribution list \<Rightarrow> int \<Rightarrow> Rectangle \<Rightarrow> Credit list" where
  "getRectangleAttribution core attributionList lev rect =
    attributionLoop core (lev + 1) rect attributionList []"

record BingMapsImageryProvider =
  bing_tilingScheme :: TilingScheme
  bing_attributionList :: "Attribution list"

definition BingMaps_getTileCredits ::
  "Core \<Rightarrow> BingMapsImageryProvider \<Rightarrow> int \<Rightarrow> int \<Rightarrow> int \<Rightarrow> Credit list" where
  "BingMaps_getTileCredits core this tx ty lev =
    (let rect = tileXYToRectangle core (bing_tilingScheme this) tx ty lev
     in getRectangleAttribution core (bing_attributionList this) lev rect)"

text \<open>The metadata document of the Bing Maps REST service, as \<open>metadataSuccess\<close> reads it.\<close>

record RawCoverageArea =
  raw_zoomMin :: int
  raw_zoomMax :: int
  raw_bbox :: "real list"

record RawAttribution =
  attribution :: string
  raw_coverageAreas :: "RawCoverageArea list"

record BingResource =
  imageWidth :: int
  imageHeight :: int
  resourceZoomMax :: int
  imageUrlSubdomains :: "string list"
  imageUrl :: string
  imageryProviders :: "RawAttribution list option"

record BingResourceSet =
  resources :: "BingResource list"

record BingMetadata =
  resourceSets :: "BingResourceSet list"

record BingImageryProviderBuilder =
  bing_tileWidth :: "int option"
  bing_tileHeight :: "int option"
  bing_maximumLevel :: "int option"
  bing_imageUrlSubdomains :: "string list option"
  bing_imageUrlTemplate :: "string option"
  bing_rawAttributionList :: "RawAttribution list option"

definition BingMaps_metadataSuccess ::
  "BingMetadata \<Rightarrow> BingImageryProviderBuilder \<Rightarrow> Error + BingImageryProviderBuilder" where
  "BingMaps_metadataSuccess data imageryProviderBuilder =
    (case resourceSets data of
       [resourceSet] \<Rightarrow>
         (case resources resourceSet of
            [] \<Rightarrow> Inl (TypeError ''Cannot read properties of undefined'')
          | resource # others \<Rightarrow>
              Inr (imageryProviderBuilder
                    \<lparr> bing_tileWidth := Some (imageWidth resource),
                      bing_tileHeight := Some (imageHeight resource),
                      bing_maximumLevel := Some (resourceZoomMax resource - 1),
                      bing_imageUrlSubdomains := Some (imageUrlSubdomains resource),
                      bing_imageUrlTemplate := Some (imageUrl resource),
                      bing_rawAttributionList := imageryProviders resource \<rparr>))
     | _ \<Rightarrow> Inl (RuntimeError ''metadata does not specify one resource in resourceSets''))"

text \<open>
  The process-wide state of the Bing provider: the static \<open>_metadataCache\<close>, from the URL of
  the metadata resource to the promise of its answer, and the log of transport invocations.
  A promise is identified by the resource whose fetch created it.
\<close>

datatype Promise = JsonpPromise Resource

record BingProcess =
  metadataCache :: "string \<rightharpoonup> Promise"
  bingFetched :: "Fetch list"

definition initialBingProcess :: BingProcess where
  "initialBingProcess = \<lparr> metadataCache = Map.empty, bingFetched = [] \<rparr>"

text \<open>
  \<open>requestMetadata\<close> up to its \<open>await\<close>: the part that runs without interruption when the
  function is called.
\<close>

definition BingMaps_requestMetadata_fetch ::
  "Core \<Rightarrow> Resource \<Rightarrow> BingProcess \<Rightarrow> Promise \<times> BingProcess" where
  "BingMaps_requestMetadata_fetch core metadataResource process =
    (let cacheKey = resourceUrl core metadataResource
     in case metadataCache process cacheKey of
          Some promise \<Rightarrow> (promise, process)
        | None \<Rightarrow>
            (let promise = JsonpPromise metadataResource
             in (promise,
                 process \<lparr> metadataCache := (metadataCache process)(cacheKey \<mapsto> promise),
                           bingFetched := bingFetched process @ [FetchJsonp metadataResource] \<rparr>)))"

text \<open>\<open>requestMetadata\<close> from its \<open>await\<close> on; \<open>settled\<close> gives the outcome of a promise.\<close>

definition BingMaps_requestMetadata_await ::
  "Core \<Rightarrow> (Promise \<Rightarrow> Error + BingMetadata) \<Rightarrow> Resource \<Rightarrow> Promise
    \<Rightarrow> BingImageryProviderBuilder \<Rightarrow> Error + BingImageryProviderBuilder" where
  "BingMaps_requestMetadata_await core settled metadataResource promise imageryProviderBuilder =
    (case settled promise of
       Inl error \<Rightarrow> Inl (metadataFailure metadataResource core error)
     | Inr data \<Rightarrow>
         (case BingMaps_metadataSuccess data imageryProviderBuilder of
            Inl error \<Rightarrow> Inl (metadataFailure metadataResource core error)
          | Inr b \<Rightarrow> Inr b))"

definition BingMaps_requestMetadata ::
  "Core \<Rightarrow> (Promise \<Rightarrow> Error + BingMetadata) \<Rightarrow> Resource \<Rightarrow> BingImageryProviderBuilder
    \<Rightarrow> BingProcess \<Rightarrow> (Error + BingImageryProviderBuilder) \<times> BingProcess" where
  "BingMaps_requestMetadata core settled metadataResource imageryProviderBuilder process =
    (let (promise, process1) = BingMaps_requestMetadata_fetch core metadataResource process
     in (BingMaps_requestMetadata_await core settled metadataResource promise
           imageryProviderBuilder, process1))"

text \<open>
  Several provider constructions, each run up to its \<open>await\<close> before any answer arrives:
  the calls of \<open>requestMetadata\<close> in the order in which they are made.
\<close>

fun BingMaps_constructions :: "Core \<Rightarrow> Resource list \<Rightarrow> BingProcess \<Rightarrow> BingProcess" where
  "BingMaps_constructions core [] process = process"
| "BingMaps_constructions core (metadataResource # rest) process =
    BingMaps_constructions core rest
      (snd (BingMaps_requestMetadata_fetch core metadataResource process))"

text \<open>The number of transport invocations in a log that fetch the URL \<open>key\<close>.\<close>

definition fetchCount :: "Core \<Rightarrow> string \<Rightarrow> Fetch list \<Rightarrow> nat" where
  "fetchCount core key fetched =
    length (filter (\<lambda>f. case f of FetchJsonp r \<Rightarrow> resourceUrl core r = key
                                  | FetchJson r \<Rightarrow> resourceUrl core r = key) fetched)"

section \<open>Sample values\<close>

text \<open>
  A small stand-in for the core library and some inputs, used where a statement is
  instantiated at a concrete value.
\<close>

fun sampleUrl :: "Resource \<Rightarrow> string" where
  "sampleUrl (Resource address) = address"
| "sampleUrl (SetQueryParameters r q) = sampleUrl r"
| "sampleUrl (DerivedResource r opts) = sampleUrl r @ url opts"

definition sampleCore :: Core where
  "sampleCore =
    \<lparr> tilingSchemeRectangle =
        (\<lambda>s. case s of
           GeographicTilingScheme e \<Rightarrow>
             \<lparr> west = - pi, south = - pi / 2, east = pi, north = pi / 2 \<rparr>
         | WebMercatorTilingScheme e \<Rightarrow>
             \<lparr> west = - pi, south = pi / 2 - 2 * arctan (exp pi),
               east = pi, north = 2 * arctan (exp pi) - pi / 2 \<rparr>),
      maximumRadius = (\<lambda>s. 6378137),
      tileXYToNativeRectangle =
        (\<lambda>s tx ty lev. \<lparr> west = of_int tx, south = of_int ty,
                         east = of_int tx + 1, north = of_int ty + 1 \<rparr>),
      tileXYToRectangle =
        (\<lambda>s tx ty lev. \<lparr> west = of_int tx, south = of_int ty,
                         east = of_int tx + 1, north = of_int ty + 1 \<rparr>),
      project = (\<lambda>s c. Cartesian3 (longitude c) (latitude c) 0),
      unproject = (\<lambda>c. case c of Cartesian3 px py pz \<Rightarrow>
                           \<lparr> longitude = px, latitude = py, height = pz \<rparr>),
      fromDegrees = (\<lambda>w s e n. \<lparr> west = w, south = s, east = e, north = n \<rparr>),
      toDegrees = (\<lambda>r. r),
      numberToString = (\<lambda>r. showInt \<lfloor>r\<rfloor>),
      intersection =
        (\<lambda>a b. if max (west a) (west b) \<le> min (east a) (east b) \<and>
                   max (south a) (south b) \<le> min (north a) (north b)
                then Some \<lparr> west = max (west a) (west b), south = max (south a) (south b),
                            east = min (east a) (east b), north = min (north a) (north b) \<rparr>
                else None),
      resourceUrl = sampleUrl \<rparr>"

definition sampleOptions :: ConstructorOptions where
  "sampleOptions =
    \<lparr> o_token = None, o_tileDiscardPolicy = None, o_usePreCachedTilesIfAvailable = None,
      o_layers = None, o_enablePickFeatures = None, o_rectangle = None,
      o_tilingScheme = None, o_ellipsoid = None, o_credit = None,
      o_tileWidth = None, o_tileHeight = None, o_maximumLevel = None \<rparr>"

definition sampleBuilder :: ImageryProviderBuilder where
  "sampleBuilder = newImageryProviderBuilder sampleCore sampleOptions"

definition sampleLods :: "LOD list" where
  "sampleLods =
    [\<lparr> lod_level = 0, lod_resolution = 4, lod_scale = 4 \<rparr>,
     \<lparr> lod_level = 1, lod_resolution = 2, lod_scale = 2 \<rparr>,
     \<lparr> lod_level = 2, lod_resolution = 1, lod_scale = 1 \<rparr>]"

text \<open>A document with a data extent of an unsupported code and no tile-grid section.\<close>

definition sampleExtentOnlyData :: MapServerData where
  "sampleExtentOnlyData =
    \<lparr> tileInfo = None,
      fullExtent = Some \<lparr> xmin = 0, ymin = 0, xmax = 1, ymax = 1,
                          fe_spatialReference = Some \<lparr> wkid = Some 9999 \<rparr> \<rparr>,
      copyrightText = None \<rparr>"

text \<open>A document whose tile-grid section reports an unsupported code.\<close>

definition sampleUnsupportedData :: MapServerData where
  "sampleUnsupportedData =
    \<lparr> tileInfo = Some \<lparr> rows = 256, cols = 256,
                        ti_spatialReference = \<lparr> wkid = Some 9999 \<rparr>, lods = sampleLods \<rparr>,
      fullExtent = None,
      copyrightText = None \<rparr>"

text \<open>A geographic tile grid with a data extent in web-mercator coordinates.\<close>

definition sampleMixedData :: MapServerData where
  "sampleMixedData =
    \<lparr> tileInfo = Some \<lparr> rows = 256, cols = 256,
                        ti_spatialReference = \<lparr> wkid = Some 4326 \<rparr>, lods = sampleLods \<rparr>,
      fullExtent = Some \<lparr> xmin = 0, ymin = 0, xmax = 1, ymax = 1,
                          fe_spatialReference = Some \<lparr> wkid = Some 102100 \<rparr> \<rparr>,
      copyrightText = None \<rparr>"

text \<open>A tile grid whose tiles are 512 pixels wide (\<open>cols\<close>) and 256 pixels high (\<open>rows\<close>).\<close>

definition sampleSwapData :: MapServerData where
  "sampleSwapData =
    \<lparr> tileInfo = Some \<lparr> rows = 256, cols = 512,
                        ti_spatialReference = \<lparr> wkid = Some 4326 \<rparr>, lods = sampleLods \<rparr>,
      fullExtent = None,
      copyrightText = None \<rparr>"

text \<open>Options with a caller-supplied rectangle, and a data extent without spatial reference.\<close>

definition sampleRectangleOptions :: ConstructorOptions where
  "sampleRectangleOptions =
    sampleOptions \<lparr> o_rectangle := Some \<lparr> west = 0, south = 0, east = 1, north = 1 \<rparr> \<rparr>"

definition sampleNoReferenceExtentData :: MapServerData where
  "sampleNoReferenceExtentData =
    \<lparr> tileInfo = Some \<lparr> rows = 256, cols = 256,
                        ti_spatialReference = \<lparr> wkid = Some 102100 \<rparr>, lods = sampleLods \<rparr>,
      fullExtent = Some \<lparr> xmin = - 20037508, ymin = - 20037508,
                          xmax = 20037508, ymax = 20037508,
                          fe_spatialReference = None \<rparr>,
      copyrightText = None \<rparr>"

text \<open>A document without tile-grid section, and a provider committed from it.\<close>

definition sampleDynamicData :: MapServerData where
  "sampleDynamicData = \<lparr> tileInfo = None, fullExtent = None, copyrightText = None \<rparr>"

definition sampleDynamicProvider :: ArcGisMapServerImageryProvider where
  "sampleDynamicProvider =
    build sampleCore
      ((newImageryProviderBuilder sampleCore (sampleOptions \<lparr> o_layers := Some ''0,2'' \<rparr>))
         \<lparr> useTiles := False \<rparr>)
      (newArcGisMapServerImageryProvider sampleCore (sampleOptions \<lparr> o_layers := Some ''0,2'' \<rparr>)
         (Resource ''http://host/''))"

definition samplePickProvider :: ArcGisMapServerImageryProvider where
  "samplePickProvider = sampleDynamicProvider \<lparr> enablePickFeatures := False \<rparr>"

text \<open>A server that answers every capability request with \<open>sampleDynamicData\<close>.\<close>

definition sampleServer :: "Resource \<Rightarrow> Error + MapServerData" where
  "sampleServer r = Inr sampleDynamicData"

text \<open>Two attribution entries that carry the same credit, and a third one.\<close>

definition sampleAttributionList :: "Attribution list" where
  "sampleAttributionList =
    [\<lparr> attributionCredit = Credit ''Imagery A'',
       coverageAreas = [\<lparr> zoomMin = 1, zoomMax = 10,
                          bbox = \<lparr> west = 0, south = 0, east = 2, north = 2 \<rparr> \<rparr>] \<rparr>,
     \<lparr> attributionCredit = Credit ''Imagery A'',
       coverageAreas = [\<lparr> zoomMin = 1, zoomMax = 5,
                          bbox = \<lparr> west = 5, south = 5, east = 6, north = 6 \<rparr> \<rparr>,
                        \<lparr> zoomMin = 1, zoomMax = 20,
                          bbox = \<lparr> west = 1, south = 1, east = 3, north = 3 \<rparr> \<rparr>] \<rparr>,
     \<lparr> attributionCredit = Credit ''Imagery B'',
       coverageAreas = [\<lparr> zoomMin = 5, zoomMax = 20,
                          bbox = \<lparr> west = 0, south = 0, east = 2, north = 2 \<rparr> \<rparr>] \<rparr>]"

definition sampleRectangle :: Rectangle where
  "sampleRectangle = \<lparr> west = 1, south = 1, east = 2, north = 2 \<rparr>"

section \<open>Evaluating the number-to-string conversion\<close>

lemma showNat_digit: "n < 10 \<Longrightarrow> showNat n = [char_of (48 + n)]"
  by (subst showNat.simps) simp

lemma showNat_step:
  "10 \<le> n \<Longrightarrow> showNat n = showNat (n div 10) @ [char_of (48 + n mod 10)]"
  by (subst showNat.simps) simp

lemma digit_chars:
  "char_of (48 :: nat) = CHR ''0''" "char_of (49 :: nat) = CHR ''1''"
  "char_of (50 :: nat) = CHR ''2''" "char_of (51 :: nat) = CHR ''3''"
  "char_of (52 :: nat) = CHR ''4''" "char_of (53 :: nat) = CHR ''5''"
  "char_of (54 :: nat) = CHR ''6''" "char_of (55 :: nat) = CHR ''7''"
  "char_of (56 :: nat) = CHR ''8''" "char_of (57 :: nat) = CHR ''9''"
  by code_simp+

lemmas showInt_eval = showInt_def showNat_digit showNat_step digit_chars

lemma showInt_0: "showInt 0 = ''0''"
  by (simp add: showInt_eval)

lemma showInt_256: "showInt 256 = ''256''"
  by (simp add: showInt_eval)

section \<open>The sample values, field by field\<close>

lemma sampleCore_fields:
  "tileXYToNativeRectangle sampleCore s tx ty lev =
     \<lparr> west = of_int tx, south = of_int ty, east = of_int tx + 1, north = of_int ty + 1 \<rparr>"
  "tileXYToRectangle sampleCore s tx ty l =
     \<lparr> west = of_int tx, south = of_int ty, east = of_int tx + 1, north = of_int ty + 1 \<rparr>"
  "numberToString sampleCore r = showInt \<lfloor>r\<rfloor>"
  "toDegrees sampleCore r = r"
  "resourceUrl sampleCore = sampleUrl"
  "maximumRadius sampleCore s = 6378137"
  "unproject sampleCore (Cartesian3 px py pz) = \<lparr> longitude = px, latitude = py, height = pz \<rparr>"
  "tilingSchemeRectangle sampleCore (GeographicTilingScheme e) =
     \<lparr> west = - pi, south = - pi / 2, east = pi, north = pi / 2 \<rparr>"
  "tilingSchemeRectangle sampleCore (WebMercatorTilingScheme e) =
     \<lparr> west = - pi, south = pi / 2 - 2 * arctan (exp pi),
       east = pi, north = 2 * arctan (exp pi) - pi / 2 \<rparr>"
  by (simp_all add: sampleCore_def)

lemma sampleCore_intersection:
  "intersection sampleCore a b =
    (if max (west a) (west b) \<le> min (east a) (east b) \<and>
        max (south a) (south b) \<le> min (north a) (north b)
     then Some \<lparr> west = max (west a) (west b), south = max (south a) (south b),
                 east = min (east a) (east b), north = min (north a) (north b) \<rparr>
     else None)"
  by (simp add: sampleCore_def)

lemma sampleBuilder_eq:
  "sampleBuilder =
    \<lparr> useTiles = True, tilingScheme = GeographicTilingScheme None,
      rectangle = \<lparr> west = - pi, south = - pi / 2, east = pi, north = pi / 2 \<rparr>,
      ellipsoid = None, credit = None, tileDiscardPolicy = None,
      tileWidth = 256, tileHeight = 256, maximumLevel = None \<rparr>"
  by (simp add: sampleBuilder_def newImageryProviderBuilder_def sampleOptions_def
      sampleCore_fields defaultValue_def)

lemma sampleDynamicProvider_fields:
  "p_useTiles sampleDynamicProvider = False"
  "p_tileWidth sampleDynamicProvider = 256"
  "p_tileHeight sampleDynamicProvider = 256"
  "p_tilingScheme sampleDynamicProvider = GeographicTilingScheme None"
  "p_layers sampleDynamicProvider = Some ''0,2''"
  "p_resource sampleDynamicProvider = Resource ''http://host/''"
  "enablePickFeatures sampleDynamicProvider = True"
  by (simp_all add: sampleDynamicProvider_def build_def newImageryProviderBuilder_def
      newArcGisMapServerImageryProvider_def sampleOptions_def defaultValue_def Let_def)

lemma sample_clamp:
  "max 0 (- (6378137 * pi)) = (0 :: real)" "min 1 (6378137 * pi) = (1 :: real)"
proof -
  have "(0 :: real) \<le> 6378137 * pi" using pi_ge_two by linarith
  then show "max 0 (- (6378137 * pi)) = (0 :: real)" by simp
  have "(1 :: real) \<le> 6378137 * pi" using pi_ge_two by linarith
  then show "min 1 (6378137 * pi) = (1 :: real)" by simp
qed

section \<open>Properties of the quadkey addressing\<close>

lemma tileXYToQuadKey_loop_unfold:
  "tileXYToQuadKey_loop x y i quadkey =
    (if i \<ge> 0 then tileXYToQuadKey_loop x y (i - 1) (quadkey @ showInt (sint (quadDigit x y i)))
     else quadkey)"
  by (subst tileXYToQuadKey_loop.simps) (simp add: quadDigit_def Let_def)

lemma quadDigit_cases: "quadDigit x y i \<in> {0, 1, 2, 3}"
  by (simp add: quadDigit_def Let_def)

lemma showInt_quadDigit:
  "showInt (sint (quadDigit x y i)) = [char_of (48 + unat (quadDigit x y i))]"
  using quadDigit_cases [of x y i]
  by (auto simp add: showInt_def showNat.simps)

lemma unaryPlusChar_quadDigit:
  "unaryPlusChar (char_of (48 + unat (quadDigit x y i))) = quadDigit x y i"
  using quadDigit_cases [of x y i]
  by (auto simp add: unaryPlusChar_def)


lemma tileXYToQuadKey_loop_eq:
  "tileXYToQuadKey_loop x y i quadkey =
    quadkey @ map (\<lambda>j. char_of (48 + unat (quadDigit x y (int j)))) (rev [0..<nat (i + 1)])"
proof (induction "nat (i + 1)" arbitrary: i quadkey)
  case 0
  then have "\<not> i \<ge> 0" by simp
  then show ?case
    using 0 by (subst tileXYToQuadKey_loop_unfold) simp
next
  case (Suc n)
  then have i: "i \<ge> 0" and n: "n = nat i" by simp_all
  have prev: "n = nat (i - 1 + 1)" using n by simp
  have "tileXYToQuadKey_loop x y i quadkey =
      tileXYToQuadKey_loop x y (i - 1) (quadkey @ showInt (sint (quadDigit x y i)))"
    using i by (subst tileXYToQuadKey_loop_unfold) simp
  also have "\<dots> = (quadkey @ showInt (sint (quadDigit x y i))) @
      map (\<lambda>j. char_of (48 + unat (quadDigit x y (int j)))) (rev [0..<n])"
    using Suc.hyps(1) [OF prev] prev by simp
  also have "\<dots> = quadkey @
      map (\<lambda>j. char_of (48 + unat (quadDigit x y (int j)))) (rev [0..<Suc n])"
    using i n by (simp add: showInt_quadDigit)
  finally show ?case using Suc.hyps(2) by simp
qed


lemma and_shiftLeft_bit:
  fixes w :: "32 word"
  assumes "0 \<le> i" "i < 32"
  shows "w AND shiftLeft 1 i \<noteq> 0 \<longleftrightarrow> bit w (nat i)"
  using assms by (simp add: shiftLeft_def and_exp_eq_0_iff_not_bit)

lemma quadDigit_bit1:
  assumes "0 \<le> i" "i < 32"
  shows "quadDigit x y i AND 1 \<noteq> 0 \<longleftrightarrow> bit (toInt32 x) (nat i)"
  unfolding and_shiftLeft_bit [OF assms, symmetric]
  by (simp add: quadDigit_def Let_def)

lemma quadDigit_bit2:
  assumes "0 \<le> i" "i < 32"
  shows "quadDigit x y i AND 2 \<noteq> 0 \<longleftrightarrow> bit (toInt32 y) (nat i)"
  unfolding and_shiftLeft_bit [OF assms, symmetric]
  by (simp add: quadDigit_def Let_def)

lemma or_bit_take_bit:
  fixes w :: "32 word"
  shows "(if bit w n then push_bit n 1 else 0) OR take_bit n w = take_bit (Suc n) w"
  by (rule bit_word_eqI) (auto simp add: bit_simps less_Suc_eq)

lemma quadKeyToTileXY_loop_unfold:
  "quadKeyToTileXY_loop quadkey lev i xw yw =
    (if i \<ge> 0 then
       quadKeyToTileXY_loop quadkey lev (i - 1)
         (if (if lev - i \<ge> 0 \<and> nat (lev - i) < length quadkey
              then unaryPlusChar (quadkey ! nat (lev - i)) else 0) AND 1 \<noteq> 0
          then xw OR shiftLeft 1 i else xw)
         (if (if lev - i \<ge> 0 \<and> nat (lev - i) < length quadkey
              then unaryPlusChar (quadkey ! nat (lev - i)) else 0) AND 2 \<noteq> 0
          then yw OR shiftLeft 1 i else yw)
     else (xw, yw))"
  by (subst quadKeyToTileXY_loop.simps) (simp add: Let_def)

lemma quadKeyToTileXY_loop_encoded:
  assumes "quadkey = map (\<lambda>j. char_of (48 + unat (quadDigit x y (int j)))) (rev [0..<nat (lev + 1)])"
    and "lev < 32"
  shows "i \<le> lev \<Longrightarrow> quadKeyToTileXY_loop quadkey lev i xw yw =
    (xw OR take_bit (nat (i + 1)) (toInt32 x), yw OR take_bit (nat (i + 1)) (toInt32 y))"
proof (induction "nat (i + 1)" arbitrary: i xw yw)
  case 0
  then have "\<not> i \<ge> 0" by simp
  then show ?case
    using 0 by (subst quadKeyToTileXY_loop_unfold) simp
next
  case (Suc n)
  then have i: "i \<ge> 0" and n: "n = nat i" by simp_all
  have prev: "n = nat (i - 1 + 1)" "i - 1 \<le> lev" using n Suc.prems by simp_all
  have i32: "i < 32" using Suc.prems assms(2) by simp
  have len: "length quadkey = nat (lev + 1)" using assms(1) by simp
  have idx: "lev - i \<ge> 0" "nat (lev - i) < length quadkey"
    using i Suc.prems len by simp_all
  have "nat i < nat (lev + 1)" using i Suc.prems by simp
  then have "rev [0..<nat (lev + 1)] ! nat (lev - i) = nat i"
    using i Suc.prems by (simp add: rev_nth nat_diff_distrib)
  then have dig: "unaryPlusChar (quadkey ! nat (lev - i)) = quadDigit x y i"
    using idx i len unfolding assms(1)
    by (simp add: unaryPlusChar_quadDigit)
  have sh: "shiftLeft 1 i = push_bit (nat i) 1" using i i32 by (simp add: shiftLeft_def)
  have "quadKeyToTileXY_loop quadkey lev i xw yw =
    quadKeyToTileXY_loop quadkey lev (i - 1)
      (xw OR (if bit (toInt32 x) (nat i) then push_bit (nat i) 1 else 0))
      (yw OR (if bit (toInt32 y) (nat i) then push_bit (nat i) 1 else 0))"
    using i idx by (subst quadKeyToTileXY_loop_unfold)
      (simp add: dig quadDigit_bit1 [OF i i32] quadDigit_bit2 [OF i i32] sh)
  also have "\<dots> =
    (xw OR (if bit (toInt32 x) (nat i) then push_bit (nat i) 1 else 0) OR take_bit n (toInt32 x),
     yw OR (if bit (toInt32 y) (nat i) then push_bit (nat i) 1 else 0) OR take_bit n (toInt32 y))"
    using Suc.hyps(1) [OF prev] prev(1) by (simp add: or.assoc)
  also have "\<dots> = (xw OR take_bit (Suc n) (toInt32 x), yw OR take_bit (Suc n) (toInt32 y))"
    unfolding n or.assoc or_bit_take_bit ..
  finally show ?case using Suc.hyps(2) by simp
qed


lemma sint_take_bit_small:
  assumes "0 \<le> v" "v < 2 ^ n" "n \<le> 30"
  shows "sint (take_bit (Suc n) (toInt32 v)) = v"
proof -
  have "(2 :: int) ^ n \<le> 2 ^ 30" using assms(3) by (intro power_increasing) simp_all
  then have v31: "v < 2 ^ 31" using assms(2) by simp
  have "(2 :: int) ^ n \<le> 2 ^ Suc n" by simp
  then have vS: "v < 2 ^ Suc n" using assms(2) by linarith
  have "take_bit (Suc n) v = v"
    using assms(1) vS by (simp add: take_bit_int_eq_self)
  then have "take_bit (Suc n) (toInt32 v) = toInt32 v"
    unfolding toInt32_def by (metis take_bit_of_int)
  moreover have "sint (toInt32 v) = v"
    unfolding toInt32_def using assms(1) v31
    by (simp add: sint_sbintrunc' signed_take_bit_int_eq_self)
  ultimately show ?thesis by simp
qed

text \<open>
  Claim C1. For every level from 0 to 23 and all x, y from 0 up to, but not including,
  2 to the power of the level, decoding the quadkey of (x, y, level) gives (x, y, level)
  back; the quadkey of (3, 5, 3) is \<open>0213\<close>, and \<open>0213\<close> decodes to (3, 5, 3).
\<close>

theorem quadkey_round_trip:
  "(0 \<le> lev \<and> lev \<le> 23 \<and> 0 \<le> x \<and> x < 2 ^ nat lev \<and> 0 \<le> y \<and> y < 2 ^ nat lev \<longrightarrow>
     quadKeyToTileXY (tileXYToQuadKey x y lev) = \<lparr> tileX = x, tileY = y, tileLevel = lev \<rparr>)
   \<and> tileXYToQuadKey 3 5 3 = ''0213''
   \<and> quadKeyToTileXY ''0213'' = \<lparr> tileX = 3, tileY = 5, tileLevel = 3 \<rparr>"
proof (intro conjI impI)
  assume a: "0 \<le> lev \<and> lev \<le> 23 \<and> 0 \<le> x \<and> x < 2 ^ nat lev \<and> 0 \<le> y \<and> y < 2 ^ nat lev"
  define quadkey where "quadkey = tileXYToQuadKey x y lev"
  have enc: "quadkey =
      map (\<lambda>j. char_of (48 + unat (quadDigit x y (int j)))) (rev [0..<nat (lev + 1)])"
    unfolding quadkey_def tileXYToQuadKey_def tileXYToQuadKey_loop_eq by simp
  have len: "int (length quadkey) - 1 = lev" using a unfolding enc by simp
  have lev32: "lev < 32" using a by simp
  have loop: "quadKeyToTileXY_loop quadkey lev lev 0 0 =
      (take_bit (Suc (nat lev)) (toInt32 x), take_bit (Suc (nat lev)) (toInt32 y))"
    using quadKeyToTileXY_loop_encoded [OF enc lev32, of lev 0 0] a
    by (simp add: nat_add_distrib)
  have n30: "nat lev \<le> 30" using a by linarith
  show "quadKeyToTileXY (tileXYToQuadKey x y lev) = \<lparr> tileX = x, tileY = y, tileLevel = lev \<rparr>"
    unfolding quadkey_def [symmetric] quadKeyToTileXY_def len Let_def loop
    using a sint_take_bit_small [OF _ _ n30] by simp
next
  show "tileXYToQuadKey 3 5 3 = ''0213''" by code_simp
next
  show "quadKeyToTileXY ''0213'' = \<lparr> tileX = 3, tileY = 5, tileLevel = 3 \<rparr>" by code_simp
qed

theorem quadkey_round_trip_witness:
  "quadKeyToTileXY (tileXYToQuadKey 2 6 3) = \<lparr> tileX = 2, tileY = 6, tileLevel = 3 \<rparr>
   \<and> tileXYToQuadKey 2 6 3 = ''0230''"
proof -
  have "quadKeyToTileXY (tileXYToQuadKey 2 6 3) = \<lparr> tileX = 2, tileY = 6, tileLevel = 3 \<rparr>"
    using quadkey_round_trip [where lev = 3 and x = 2 and y = 6] by simp
  moreover have "tileXYToQuadKey 2 6 3 = ''0230''" by code_simp
  ultimately show ?thesis by (rule conjI)
qed

section \<open>Spatial references in the capability document\<close>

text \<open>
  A document without tile-grid section whose data extent reports the code 9999 is accepted:
  the code of the data extent is not looked at, and no error is raised.
\<close>

theorem extent_code_unchecked_without_tile_grid:
  "metadataSuccess sampleCore sampleExtentOnlyData sampleBuilder =
     Inr (sampleBuilder \<lparr> useTiles := False \<rparr>)"
  by (simp add: metadataSuccess_def metadataCopyright_def sampleExtentOnlyData_def)

text \<open>
  Claim C2, as amended. For a capability document with a tile-grid section: a tile-grid code
  other than 102100, 102113 and 4326 is a fatal error. For a supported tile-grid code,
  parsing succeeds unless the data extent reports an unsupported code, and the tiling
  scheme is the web-mercator one for the tile-grid codes 102100 and 102113 and the
  geographic one for 4326: this holds when the document has no data extent, when the data
  extent has no spatial reference or no code (it is then not checked), and when the data
  extent carries a supported code. When the data extent carries a code, the extent is
  clamped and unprojected with the web-mercator projection for 102100 and 102113, read as
  degrees for 4326, and any other code is a fatal error; the code of the data extent never
  selects the tiling scheme. A document without tile-grid section raises no
  spatial-reference error.
\<close>

theorem metadata_spatial_reference:
  "(tileInfo data = Some ti \<longrightarrow>
      (wkid (ti_spatialReference ti) \<notin> {Some 102100, Some 102113, Some 4326} \<longrightarrow>
         metadataSuccess core data b =
           Inl (RuntimeError (''Tile spatial reference WKID '' @
                  showOptInt (wkid (ti_spatialReference ti)) @ '' is not supported.'')))
      \<and> (\<forall>b'. metadataSuccess core data b = Inr b' \<longrightarrow>
            (wkid (ti_spatialReference ti) \<in> {Some 102100, Some 102113}
               \<and> tilingScheme b' = WebMercatorTilingScheme (ellipsoid b))
            \<or> (wkid (ti_spatialReference ti) = Some 4326
               \<and> tilingScheme b' = GeographicTilingScheme (ellipsoid b)))
      \<and> (wkid (ti_spatialReference ti) \<in> {Some 102100, Some 102113, Some 4326}
           \<and> (fullExtent data = None
               \<or> (\<exists>extent. fullExtent data = Some extent
                     \<and> (fe_spatialReference extent = None
                         \<or> (\<exists>sr. fe_spatialReference extent = Some sr \<and> wkid sr = None)))) \<longrightarrow>
            (\<exists>b'. metadataSuccess core data b = Inr b' \<and>
               tilingScheme b' =
                 (if wkid (ti_spatialReference ti) = Some 4326
                  then GeographicTilingScheme (ellipsoid b)
                  else WebMercatorTilingScheme (ellipsoid b))))
      \<and> (wkid (ti_spatialReference ti) \<in> {Some 102100, Some 102113, Some 4326}
           \<and> fullExtent data = Some extent \<and> fe_spatialReference extent = Some sr
           \<and> wkid sr = Some c \<longrightarrow>
            (c \<in> {102100, 102113} \<longrightarrow>
               (\<exists>b'. metadataSuccess core data b = Inr b' \<and>
                  tilingScheme b' =
                    (if wkid (ti_spatialReference ti) = Some 4326
                     then GeographicTilingScheme (ellipsoid b)
                     else WebMercatorTilingScheme (ellipsoid b)) \<and>
                  rectangle b' =
                    \<lparr> west = longitude (unproject core (Cartesian3
                               (max (xmin extent) (- maximumRadius core (tilingScheme b') * pi))
                               (max (ymin extent) (- maximumRadius core (tilingScheme b') * pi)) 0)),
                      south = latitude (unproject core (Cartesian3
                               (max (xmin extent) (- maximumRadius core (tilingScheme b') * pi))
                               (max (ymin extent) (- maximumRadius core (tilingScheme b') * pi)) 0)),
                      east = longitude (unproject core (Cartesian3
                               (min (xmax extent) (maximumRadius core (tilingScheme b') * pi))
                               (min (ymax extent) (maximumRadius core (tilingScheme b') * pi)) 0)),
                      north = latitude (unproject core (Cartesian3
                               (min (xmax extent) (maximumRadius core (tilingScheme b') * pi))
                               (min (ymax extent) (maximumRadius core (tilingScheme b') * pi)) 0)) \<rparr>))
            \<and> (c = 4326 \<longrightarrow>
               (\<exists>b'. metadataSuccess core data b = Inr b' \<and>
                  tilingScheme b' =
                    (if wkid (ti_spatialReference ti) = Some 4326
                     then GeographicTilingScheme (ellipsoid b)
                     else WebMercatorTilingScheme (ellipsoid b)) \<and>
                  rectangle b' = fromDegrees core (xmin extent) (ymin extent)
                                   (xmax extent) (ymax extent)))
            \<and> (c \<notin> {102100, 102113, 4326} \<longrightarrow>
               metadataSuccess core data b =
                 Inl (RuntimeError (''fullExtent.spatialReference WKID '' @ showInt c @
                        '' is not supported.'')))))
   \<and> (tileInfo data = None \<longrightarrow>
        metadataSuccess core data b = Inr (metadataCopyright data (b \<lparr> useTiles := False \<rparr>)))"
proof (intro conjI impI allI)
  assume "tileInfo data = Some ti"
    and "wkid (ti_spatialReference ti) \<notin> {Some 102100, Some 102113, Some 4326}"
  then show "metadataSuccess core data b =
           Inl (RuntimeError (''Tile spatial reference WKID '' @
                  showOptInt (wkid (ti_spatialReference ti)) @ '' is not supported.''))"
    by (simp add: metadataSuccess_def metadataTileInfo_def Let_def)
next
  fix b'
  assume "tileInfo data = Some ti" and "metadataSuccess core data b = Inr b'"
  then show "(wkid (ti_spatialReference ti) \<in> {Some 102100, Some 102113}
               \<and> tilingScheme b' = WebMercatorTilingScheme (ellipsoid b))
            \<or> (wkid (ti_spatialReference ti) = Some 4326
               \<and> tilingScheme b' = GeographicTilingScheme (ellipsoid b))"
    by (auto simp add: metadataSuccess_def metadataTileInfo_def metadataFullExtent_def
        metadataCopyright_def Let_def split: if_splits option.splits sum.splits)
next
  assume ti: "tileInfo data = Some ti"
    and ex: "wkid (ti_spatialReference ti) \<in> {Some 102100, Some 102113, Some 4326}
           \<and> (fullExtent data = None
               \<or> (\<exists>extent. fullExtent data = Some extent
                     \<and> (fe_spatialReference extent = None
                         \<or> (\<exists>sr. fe_spatialReference extent = Some sr \<and> wkid sr = None))))"
  define scheme where "scheme =
    (if wkid (ti_spatialReference ti) = Some 4326
     then GeographicTilingScheme (ellipsoid b)
     else WebMercatorTilingScheme (ellipsoid b))"
  from ex obtain b1 where b1: "metadataTileInfo ti b = Inr b1" and s1: "tilingScheme b1 = scheme"
    by (auto simp add: metadataTileInfo_def Let_def scheme_def)
  from ex obtain b2 where b2: "metadataFullExtent core (fullExtent data) b1 = Inr b2"
    and s2: "tilingScheme b2 = tilingScheme b1"
    by (auto simp add: metadataFullExtent_def)
  have "metadataSuccess core data b = Inr (metadataCopyright data (b2 \<lparr> useTiles := True \<rparr>))"
    using ti b1 b2 by (simp add: metadataSuccess_def)
  moreover have "tilingScheme (metadataCopyright data (b2 \<lparr> useTiles := True \<rparr>)) = scheme"
    using s1 s2 by (simp add: metadataCopyright_def split: option.split)
  ultimately show "\<exists>b'. metadataSuccess core data b = Inr b' \<and>
               tilingScheme b' =
                 (if wkid (ti_spatialReference ti) = Some 4326
                  then GeographicTilingScheme (ellipsoid b)
                  else WebMercatorTilingScheme (ellipsoid b))"
    unfolding scheme_def by blast
next
  assume ti: "tileInfo data = Some ti"
    and ex: "wkid (ti_spatialReference ti) \<in> {Some 102100, Some 102113, Some 4326}
           \<and> fullExtent data = Some extent \<and> fe_spatialReference extent = Some sr
           \<and> wkid sr = Some c"
    and c: "c \<in> {102100, 102113}"
  from ex obtain b1 where b1: "metadataTileInfo ti b = Inr b1"
    and s1: "tilingScheme b1 =
      (if wkid (ti_spatialReference ti) = Some 4326
       then GeographicTilingScheme (ellipsoid b)
       else WebMercatorTilingScheme (ellipsoid b))"
    by (auto simp add: metadataTileInfo_def Let_def)
  show "\<exists>b'. metadataSuccess core data b = Inr b' \<and>
                  tilingScheme b' =
                    (if wkid (ti_spatialReference ti) = Some 4326
                     then GeographicTilingScheme (ellipsoid b)
                     else WebMercatorTilingScheme (ellipsoid b)) \<and>
                  rectangle b' =
                    \<lparr> west = longitude (unproject core (Cartesian3
                               (max (xmin extent) (- maximumRadius core (tilingScheme b') * pi))
                               (max (ymin extent) (- maximumRadius core (tilingScheme b') * pi)) 0)),
                      south = latitude (unproject core (Cartesian3
                               (max (xmin extent) (- maximumRadius core (tilingScheme b') * pi))
                               (max (ymin extent) (- maximumRadius core (tilingScheme b') * pi)) 0)),
                      east = longitude (unproject core (Cartesian3
                               (min (xmax extent) (maximumRadius core (tilingScheme b') * pi))
                               (min (ymax extent) (maximumRadius core (tilingScheme b') * pi)) 0)),
                      north = latitude (unproject core (Cartesian3
                               (min (xmax extent) (maximumRadius core (tilingScheme b') * pi))
                               (min (ymax extent) (maximumRadius core (tilingScheme b') * pi)) 0)) \<rparr>"
    using ti ex c b1 s1
    by (auto simp add: metadataSuccess_def metadataFullExtent_def metadataCopyright_def Let_def
        split: option.splits)
next
  assume ti: "tileInfo data = Some ti"
    and ex: "wkid (ti_spatialReference ti) \<in> {Some 102100, Some 102113, Some 4326}
           \<and> fullExtent data = Some extent \<and> fe_spatialReference extent = Some sr
           \<and> wkid sr = Some c"
    and c: "c = 4326"
  from ex obtain b1 where b1: "metadataTileInfo ti b = Inr b1"
    and s1: "tilingScheme b1 =
      (if wkid (ti_spatialReference ti) = Some 4326
       then GeographicTilingScheme (ellipsoid b)
       else WebMercatorTilingScheme (ellipsoid b))"
    by (auto simp add: metadataTileInfo_def Let_def)
  show "\<exists>b'. metadataSuccess core data b = Inr b' \<and>
                  tilingScheme b' =
                    (if wkid (ti_spatialReference ti) = Some 4326
                     then GeographicTilingScheme (ellipsoid b)
                     else WebMercatorTilingScheme (ellipsoid b)) \<and>
                  rectangle b' = fromDegrees core (xmin extent) (ymin extent)
                                   (xmax extent) (ymax extent)"
    using ti ex c b1 s1
    by (auto simp add: metadataSuccess_def metadataFullExtent_def metadataCopyright_def Let_def
        split: option.splits)
next
  assume ti: "tileInfo data = Some ti"
    and ex: "wkid (ti_spatialReference ti) \<in> {Some 102100, Some 102113, Some 4326}
           \<and> fullExtent data = Some extent \<and> fe_spatialReference extent = Some sr
           \<and> wkid sr = Some c"
    and c: "c \<notin> {102100, 102113, 4326}"
  from ex obtain b1 where b1: "metadataTileInfo ti b = Inr b1"
    by (auto simp add: metadataTileInfo_def Let_def)
  show "metadataSuccess core data b =
                 Inl (RuntimeError (''fullExtent.spatialReference WKID '' @ showInt c @
                        '' is not supported.''))"
    using ti ex c b1
    by (auto simp add: metadataSuccess_def metadataFullExtent_def Let_def)
next
  assume "tileInfo data = None"
  then show "metadataSuccess core data b = Inr (metadataCopyright data (b \<lparr> useTiles := False \<rparr>))"
    by (simp add: metadataSuccess_def)
qed

theorem metadata_spatial_reference_witness:
  "metadataSuccess sampleCore sampleUnsupportedData sampleBuilder =
     Inl (RuntimeError ''Tile spatial reference WKID 9999 is not supported.'')
   \<and> (\<exists>b'. metadataSuccess sampleCore sampleMixedData sampleBuilder = Inr b'
          \<and> tilingScheme b' = GeographicTilingScheme None
          \<and> rectangle b' = \<lparr> west = 0, south = 0, east = 1, north = 1 \<rparr>)
   \<and> (\<exists>b'. metadataSuccess sampleCore sampleNoReferenceExtentData sampleBuilder = Inr b'
          \<and> tilingScheme b' = WebMercatorTilingScheme None)
   \<and> (\<exists>b'. metadataSuccess sampleCore sampleSwapData sampleBuilder = Inr b'
          \<and> tilingScheme b' = GeographicTilingScheme None)"
proof -
  have tiA: "tileInfo sampleUnsupportedData = Some \<lparr> rows = 256, cols = 256,
                   ti_spatialReference = \<lparr> wkid = Some 9999 \<rparr>, lods = sampleLods \<rparr>"
    by (simp add: sampleUnsupportedData_def)
  have a: "metadataSuccess sampleCore sampleUnsupportedData sampleBuilder =
     Inl (RuntimeError ''Tile spatial reference WKID 9999 is not supported.'')"
    using metadata_spatial_reference [where data = sampleUnsupportedData
        and core = sampleCore and b = sampleBuilder,
        THEN conjunct1, THEN mp, OF tiA, THEN conjunct1]
    by (simp add: showInt_eval)
  note inst = metadata_spatial_reference [where data = sampleMixedData
        and ti = "\<lparr> rows = 256, cols = 256,
                   ti_spatialReference = \<lparr> wkid = Some 4326 \<rparr>, lods = sampleLods \<rparr>"
        and extent = "\<lparr> xmin = 0, ymin = 0, xmax = 1, ymax = 1,
                       fe_spatialReference = Some \<lparr> wkid = Some 102100 \<rparr> \<rparr>"
        and sr = "\<lparr> wkid = Some 102100 \<rparr>" and c = 102100
        and core = sampleCore and b = sampleBuilder]
  have ti: "tileInfo sampleMixedData = Some \<lparr> rows = 256, cols = 256,
                   ti_spatialReference = \<lparr> wkid = Some 4326 \<rparr>, lods = sampleLods \<rparr>"
    by (simp add: sampleMixedData_def)
  have m: "\<exists>b'. metadataSuccess sampleCore sampleMixedData sampleBuilder = Inr b'
          \<and> tilingScheme b' = GeographicTilingScheme None
          \<and> rectangle b' = \<lparr> west = 0, south = 0, east = 1, north = 1 \<rparr>"
    using inst [THEN conjunct1, THEN mp, OF ti, THEN conjunct2, THEN conjunct2, THEN conjunct2]
    by (simp add: sampleMixedData_def sampleCore_fields sample_clamp sampleBuilder_eq)
  have tiN: "tileInfo sampleNoReferenceExtentData = Some \<lparr> rows = 256, cols = 256,
                   ti_spatialReference = \<lparr> wkid = Some 102100 \<rparr>, lods = sampleLods \<rparr>"
    by (simp add: sampleNoReferenceExtentData_def)
  have n: "\<exists>b'. metadataSuccess sampleCore sampleNoReferenceExtentData sampleBuilder = Inr b'
          \<and> tilingScheme b' = WebMercatorTilingScheme None"
    using metadata_spatial_reference [where data = sampleNoReferenceExtentData
        and core = sampleCore and b = sampleBuilder
        and extent = "\<lparr> xmin = 0, ymin = 0, xmax = 1, ymax = 1, fe_spatialReference = None \<rparr>"
        and sr = "\<lparr> wkid = None \<rparr>" and c = 0,
        THEN conjunct1, THEN mp, OF tiN, THEN conjunct2, THEN conjunct2, THEN conjunct1]
    by (simp add: sampleNoReferenceExtentData_def sampleBuilder_eq)
  have tiS: "tileInfo sampleSwapData = Some \<lparr> rows = 256, cols = 512,
                   ti_spatialReference = \<lparr> wkid = Some 4326 \<rparr>, lods = sampleLods \<rparr>"
    by (simp add: sampleSwapData_def)
  have s: "\<exists>b'. metadataSuccess sampleCore sampleSwapData sampleBuilder = Inr b'
          \<and> tilingScheme b' = GeographicTilingScheme None"
    using metadata_spatial_reference [where data = sampleSwapData
        and core = sampleCore and b = sampleBuilder
        and extent = "\<lparr> xmin = 0, ymin = 0, xmax = 1, ymax = 1, fe_spatialReference = None \<rparr>"
        and sr = "\<lparr> wkid = None \<rparr>" and c = 0,
        THEN conjunct1, THEN mp, OF tiS, THEN conjunct2, THEN conjunct2, THEN conjunct1]
    by (simp add: sampleSwapData_def sampleBuilder_eq)
  from a m n s show ?thesis by (intro conjI)
qed

section \<open>Tile size, maximum level and rectangle from the capability document\<close>

text \<open>
  Claim C9, the code at a tile grid whose tiles are 512 pixels wide and 256 pixels high
  (\<open>cols = 512\<close>, \<open>rows = 256\<close>, three levels of detail, code 4326). Addressing mode and
  maximum level are as the claim says; the tile width is taken from \<open>rows\<close> and the tile
  height from \<open>cols\<close>, so the builder holds a width of 256 and a height of 512.
\<close>

theorem tile_size_rows_cols_swapped:
  "metadataSuccess sampleCore sampleSwapData sampleBuilder =
     Inr \<lparr> useTiles = True, tilingScheme = GeographicTilingScheme None,
           rectangle = \<lparr> west = - pi, south = - pi / 2, east = pi, north = pi / 2 \<rparr>,
           ellipsoid = None, credit = None, tileDiscardPolicy = None,
           tileWidth = 256, tileHeight = 512, maximumLevel = Some 2 \<rparr>"
  by (simp add: metadataSuccess_def metadataTileInfo_def metadataFullExtent_def
      metadataCopyright_def sampleSwapData_def sampleBuilder_eq sampleLods_def Let_def
      sampleCore_fields)

text \<open>
  Claim C7, the code at a web-mercator tile grid with a data extent that carries no spatial
  reference, for a caller who supplied the rectangle (0, 0, 1, 1). The builder keeps the
  caller's rectangle, which is not the rectangle of the resolved tiling scheme.
\<close>

theorem extent_without_reference_keeps_caller_rectangle:
  "metadataSuccess sampleCore sampleNoReferenceExtentData
     (newImageryProviderBuilder sampleCore sampleRectangleOptions) =
     Inr \<lparr> useTiles = True, tilingScheme = WebMercatorTilingScheme None,
           rectangle = \<lparr> west = 0, south = 0, east = 1, north = 1 \<rparr>,
           ellipsoid = None, credit = None, tileDiscardPolicy = None,
           tileWidth = 256, tileHeight = 256, maximumLevel = Some 2 \<rparr>
   \<and> tilingSchemeRectangle sampleCore (WebMercatorTilingScheme None) \<noteq>
       \<lparr> west = 0, south = 0, east = 1, north = 1 \<rparr>"
  by (simp add: metadataSuccess_def metadataTileInfo_def metadataFullExtent_def
      metadataCopyright_def sampleNoReferenceExtentData_def newImageryProviderBuilder_def
      sampleRectangleOptions_def sampleOptions_def defaultValue_def sampleLods_def Let_def
      sampleCore_fields)

section \<open>Committing the builder\<close>

text \<open>
  Claim C4. \<open>build\<close> replaces the discard policy of the builder by a default one if and only
  if the builder uses precached tiles and holds no discard policy. The default policy takes
  its missing-tile image from the tile request for x = 0, y = 0 at the maximum level, checks
  the pixels (0,0), (200,20), (20,200), (80,110), (160,130) in this order, and is told to
  disable the check when all of them are transparent.
\<close>

theorem build_default_discard_policy:
  "p_tileDiscardPolicy (build core this provider) =
     (if useTiles this \<and> tileDiscardPolicy this = None then
        Some (DiscardMissingTileImagePolicy
          \<lparr> missingImageUrl = resourceUrl core
              (DerivedResource (p_resource provider)
                 \<lparr> url = ''tile/'' @ showOptInt (maximumLevel this) @ ''/0/0'',
                   request = None, queryParameters = [] \<rparr>),
            pixelsToCheck = [Cartesian2 0 0, Cartesian2 200 20, Cartesian2 20 200,
                             Cartesian2 80 110, Cartesian2 160 130],
            disableCheckIfAllPixelsAreTransparent = True \<rparr>)
      else tileDiscardPolicy this)
   \<and> (p_tileDiscardPolicy (build core this provider) \<noteq> tileDiscardPolicy this
        \<longleftrightarrow> useTiles this \<and> tileDiscardPolicy this = None)"
  by (simp add: build_def buildImageResource_def Let_def showInt_0)

theorem build_default_discard_policy_witness:
  "p_tileDiscardPolicy
     (build sampleCore (sampleBuilder \<lparr> maximumLevel := Some 7 \<rparr>) sampleDynamicProvider) =
     Some (DiscardMissingTileImagePolicy
       \<lparr> missingImageUrl = ''http://host/tile/7/0/0'',
         pixelsToCheck = [Cartesian2 0 0, Cartesian2 200 20, Cartesian2 20 200,
                          Cartesian2 80 110, Cartesian2 160 130],
         disableCheckIfAllPixelsAreTransparent = True \<rparr>)
   \<and> p_tileDiscardPolicy
     (build sampleCore (sampleBuilder \<lparr> tileDiscardPolicy := Some NeverTileDiscardPolicy \<rparr>)
        sampleDynamicProvider) =
     Some NeverTileDiscardPolicy
   \<and> p_tileDiscardPolicy
     (build sampleCore (sampleBuilder \<lparr> useTiles := False \<rparr>) sampleDynamicProvider) = None"
proof -
  have "p_tileDiscardPolicy
     (build sampleCore (sampleBuilder \<lparr> maximumLevel := Some 7 \<rparr>) sampleDynamicProvider) =
     Some (DiscardMissingTileImagePolicy
       \<lparr> missingImageUrl = ''http://host/tile/7/0/0'',
         pixelsToCheck = [Cartesian2 0 0, Cartesian2 200 20, Cartesian2 20 200,
                          Cartesian2 80 110, Cartesian2 160 130],
         disableCheckIfAllPixelsAreTransparent = True \<rparr>)"
    unfolding build_default_discard_policy [THEN conjunct1]
    by (simp add: sampleBuilder_eq sampleDynamicProvider_fields sampleCore_fields showInt_eval)
  moreover have "p_tileDiscardPolicy
     (build sampleCore (sampleBuilder \<lparr> tileDiscardPolicy := Some NeverTileDiscardPolicy \<rparr>)
        sampleDynamicProvider) =
     Some NeverTileDiscardPolicy"
    unfolding build_default_discard_policy [THEN conjunct1]
    by (simp add: sampleBuilder_eq)
  moreover have "p_tileDiscardPolicy
     (build sampleCore (sampleBuilder \<lparr> useTiles := False \<rparr>) sampleDynamicProvider) = None"
    unfolding build_default_discard_policy [THEN conjunct1]
    by (simp add: sampleBuilder_eq)
  ultimately show ?thesis by simp
qed

section \<open>Requests of the ArcGIS provider\<close>

text \<open>
  Claim C5. A capability document without tile-grid section makes \<open>metadataSuccess\<close> succeed
  with a builder that does not use precached tiles, and \<open>build\<close> commits the provider to
  that mode. For a provider in that mode with tiles of 256 by 256 pixels, the request for a
  tile is the export query whose \<open>bbox\<close> is west, south, east, north of the tile's native
  rectangle, whose \<open>size\<close> is \<open>256,256\<close>, with \<open>transparent\<close> true and the spatial-reference
  parameters 4326 for the geographic and 3857 for the web-mercator tiling scheme; a
  \<open>layers\<close> parameter \<open>show:\<close> followed by the layer filter is added exactly when the layer
  filter is a string that is not empty.
\<close>

theorem dynamic_export_request:
  "(tileInfo data = None \<longrightarrow>
      (\<exists>b'. metadataSuccess core data b = Inr b' \<and> \<not> useTiles b'
            \<and> \<not> p_useTiles (build core b' provider)))
   \<and> (\<not> p_useTiles p \<and> p_tileWidth p = 256 \<and> p_tileHeight p = 256 \<longrightarrow>
      buildImageResource core p tx ty lev req =
        DerivedResource (p_resource p)
          \<lparr> url = ''export'', request = req,
            queryParameters =
              [(''bbox'', QString
                  (numberToString core (west (tileXYToNativeRectangle core (p_tilingScheme p) tx ty lev))
                   @ '','' @
                   numberToString core (south (tileXYToNativeRectangle core (p_tilingScheme p) tx ty lev))
                   @ '','' @
                   numberToString core (east (tileXYToNativeRectangle core (p_tilingScheme p) tx ty lev))
                   @ '','' @
                   numberToString core (north (tileXYToNativeRectangle core (p_tilingScheme p) tx ty lev)))),
               (''size'', QString ''256,256''),
               (''format'', QString ''png32''),
               (''transparent'', QBoolean True),
               (''f'', QString ''image''),
               (''bboxSR'', QNumber (case p_tilingScheme p of
                                       GeographicTilingScheme e \<Rightarrow> 4326
                                     | WebMercatorTilingScheme e \<Rightarrow> 3857)),
               (''imageSR'', QNumber (case p_tilingScheme p of
                                        GeographicTilingScheme e \<Rightarrow> 4326
                                      | WebMercatorTilingScheme e \<Rightarrow> 3857))]
              @ (case p_layers p of
                   Some l \<Rightarrow> if l \<noteq> [] then [(''layers'', QString (''show:'' @ l))] else []
                 | None \<Rightarrow> []) \<rparr>)"
proof (intro conjI impI)
  assume "tileInfo data = None"
  then show "\<exists>b'. metadataSuccess core data b = Inr b' \<and> \<not> useTiles b'
      \<and> \<not> p_useTiles (build core b' provider)"
    by (simp add: metadataSuccess_def metadataCopyright_def build_def Let_def
        split: option.split)
next
  assume "\<not> p_useTiles p \<and> p_tileWidth p = 256 \<and> p_tileHeight p = 256"
  then show "buildImageResource core p tx ty lev req =
        DerivedResource (p_resource p)
          \<lparr> url = ''export'', request = req,
            queryParameters =
              [(''bbox'', QString
                  (numberToString core (west (tileXYToNativeRectangle core (p_tilingScheme p) tx ty lev))
                   @ '','' @
                   numberToString core (south (tileXYToNativeRectangle core (p_tilingScheme p) tx ty lev))
                   @ '','' @
                   numberToString core (east (tileXYToNativeRectangle core (p_tilingScheme p) tx ty lev))
                   @ '','' @
                   numberToString core (north (tileXYToNativeRectangle core (p_tilingScheme p) tx ty lev)))),
               (''size'', QString ''256,256''),
               (''format'', QString ''png32''),
               (''transparent'', QBoolean True),
               (''f'', QString ''image''),
               (''bboxSR'', QNumber (case p_tilingScheme p of
                                       GeographicTilingScheme e \<Rightarrow> 4326
                                     | WebMercatorTilingScheme e \<Rightarrow> 3857)),
               (''imageSR'', QNumber (case p_tilingScheme p of
                                        GeographicTilingScheme e \<Rightarrow> 4326
                                      | WebMercatorTilingScheme e \<Rightarrow> 3857))]
              @ (case p_layers p of
                   Some l \<Rightarrow> if l \<noteq> [] then [(''layers'', QString (''show:'' @ l))] else []
                 | None \<Rightarrow> []) \<rparr>"
    by (cases "p_tilingScheme p")
      (simp_all add: buildImageResource_def Let_def showInt_256 truthy_def layers_def
        split: option.split)
qed

theorem dynamic_export_request_witness:
  "(\<exists>b'. metadataSuccess sampleCore sampleDynamicData sampleBuilder = Inr b'
          \<and> \<not> useTiles b' \<and> \<not> p_useTiles (build sampleCore b' sampleDynamicProvider))
   \<and> buildImageResource sampleCore sampleDynamicProvider 2 3 (Some 5) None =
     DerivedResource (Resource ''http://host/'')
       \<lparr> url = ''export'', request = None,
         queryParameters =
           [(''bbox'', QString ''2,3,3,4''),
            (''size'', QString ''256,256''),
            (''format'', QString ''png32''),
            (''transparent'', QBoolean True),
            (''f'', QString ''image''),
            (''bboxSR'', QNumber 4326),
            (''imageSR'', QNumber 4326),
            (''layers'', QString ''show:0,2'')] \<rparr>"
  using dynamic_export_request [where data = sampleDynamicData and core = sampleCore
      and b = sampleBuilder and provider = sampleDynamicProvider
      and p = sampleDynamicProvider and tx = 2 and ty = 3 and lev = "Some 5" and req = None]
  by (simp add: sampleDynamicProvider_fields sampleCore_fields showInt_eval
      sampleDynamicData_def)

text \<open>
  Claim C6. With the pick-enable flag false, \<open>pickFeatures\<close> returns \<open>undefined\<close> and the log
  of transport invocations is unchanged. With the flag true it appends exactly one fetch,
  that of the identify query, which carries the point (in degrees for the geographic
  scheme, projected otherwise), the native rectangle of the tile, the display size, the
  spatial-reference code and the layer filter \<open>visible\<close> or \<open>visible:\<close> followed by the
  layers.
\<close>

theorem pickFeatures_request:
  "(\<not> enablePickFeatures this \<longrightarrow>
      pickFeatures core this tx ty lev lon lat fetched = (None, fetched))
   \<and> (enablePickFeatures this \<longrightarrow>
      pickFeatures core this tx ty lev lon lat fetched =
        (Some (DerivedResource (p_resource this)
           \<lparr> url = ''identify'', request = None,
             queryParameters =
               [(''f'', QString ''json''),
                (''tolerance'', QNumber 2),
                (''geometryType'', QString ''esriGeometryPoint''),
                (''geometry'', QString
                   (case p_tilingScheme this of
                      GeographicTilingScheme e \<Rightarrow>
                        numberToString core (toDegrees core lon) @ '','' @
                        numberToString core (toDegrees core lat)
                    | WebMercatorTilingScheme e \<Rightarrow>
                        (case project core (p_tilingScheme this)
                                \<lparr> longitude = lon, latitude = lat, height = 0 \<rparr> of
                           Cartesian3 px py pz \<Rightarrow>
                             numberToString core px @ '','' @ numberToString core py))),
                (''mapExtent'', QString
                   (numberToString core
                      (west (tileXYToNativeRectangle core (p_tilingScheme this) tx ty (Some lev)))
                    @ '','' @
                    numberToString core
                      (south (tileXYToNativeRectangle core (p_tilingScheme this) tx ty (Some lev)))
                    @ '','' @
                    numberToString core
                      (east (tileXYToNativeRectangle core (p_tilingScheme this) tx ty (Some lev)))
                    @ '','' @
                    numberToString core
                      (north (tileXYToNativeRectangle core (p_tilingScheme this) tx ty (Some lev))))),
                (''imageDisplay'', QString
                   (showInt (p_tileWidth this) @ '','' @ showInt (p_tileHeight this) @ '',96'')),
                (''sr'', QString (case p_tilingScheme this of
                                   GeographicTilingScheme e \<Rightarrow> ''4326''
                                 | WebMercatorTilingScheme e \<Rightarrow> ''3857'')),
                (''layers'', QString (case p_layers this of
                                       Some l \<Rightarrow> ''visible:'' @ l
                                     | None \<Rightarrow> ''visible''))] \<rparr>),
         fetched @ [FetchJson (DerivedResource (p_resource this)
           \<lparr> url = ''identify'', request = None,
             queryParameters =
               [(''f'', QString ''json''),
                (''tolerance'', QNumber 2),
                (''geometryType'', QString ''esriGeometryPoint''),
                (''geometry'', QString
                   (case p_tilingScheme this of
                      GeographicTilingScheme e \<Rightarrow>
                        numberToString core (toDegrees core lon) @ '','' @
                        numberToString core (toDegrees core lat)
                    | WebMercatorTilingScheme e \<Rightarrow>
                        (case project core (p_tilingScheme this)
                                \<lparr> longitude = lon, latitude = lat, height = 0 \<rparr> of
                           Cartesian3 px py pz \<Rightarrow>
                             numberToString core px @ '','' @ numberToString core py))),
                (''mapExtent'', QString
                   (numberToString core
                      (west (tileXYToNativeRectangle core (p_tilingScheme this) tx ty (Some lev)))
                    @ '','' @
                    numberToString core
                      (south (tileXYToNativeRectangle core (p_tilingScheme this) tx ty (Some lev)))
                    @ '','' @
                    numberToString core
                      (east (tileXYToNativeRectangle core (p_tilingScheme this) tx ty (Some lev)))
                    @ '','' @
                    numberToString core
                      (north (tileXYToNativeRectangle core (p_tilingScheme this) tx ty (Some lev))))),
                (''imageDisplay'', QString
                   (showInt (p_tileWidth this) @ '','' @ showInt (p_tileHeight this) @ '',96'')),
                (''sr'', QString (case p_tilingScheme this of
                                   GeographicTilingScheme e \<Rightarrow> ''4326''
                                 | WebMercatorTilingScheme e \<Rightarrow> ''3857'')),
                (''layers'', QString (case p_layers this of
                                       Some l \<Rightarrow> ''visible:'' @ l
                                     | None \<Rightarrow> ''visible''))] \<rparr>)]))"
  by (cases "p_tilingScheme this")
    (simp_all add: pickFeatures_def Let_def split: option.split Cartesian3.split)

theorem pickFeatures_request_witness:
  "pickFeatures sampleCore samplePickProvider 2 3 5 1 2 [] = (None, [])
   \<and> pickFeatures sampleCore sampleDynamicProvider 2 3 5 1 2 [] =
       (Some (DerivedResource (Resource ''http://host/'')
          \<lparr> url = ''identify'', request = None,
            queryParameters =
              [(''f'', QString ''json''),
               (''tolerance'', QNumber 2),
               (''geometryType'', QString ''esriGeometryPoint''),
               (''geometry'', QString ''1,2''),
               (''mapExtent'', QString ''2,3,3,4''),
               (''imageDisplay'', QString ''256,256,96''),
               (''sr'', QString ''4326''),
               (''layers'', QString ''visible:0,2'')] \<rparr>),
        [FetchJson (DerivedResource (Resource ''http://host/'')
          \<lparr> url = ''identify'', request = None,
            queryParameters =
              [(''f'', QString ''json''),
               (''tolerance'', QNumber 2),
               (''geometryType'', QString ''esriGeometryPoint''),
               (''geometry'', QString ''1,2''),
               (''mapExtent'', QString ''2,3,3,4''),
               (''imageDisplay'', QString ''256,256,96''),
               (''sr'', QString ''4326''),
               (''layers'', QString ''visible:0,2'')] \<rparr>)])"
  using pickFeatures_request [where this = samplePickProvider and core = sampleCore
      and tx = 2 and ty = 3 and lev = 5 and lon = 1 and lat = 2 and fetched = "[]"]
    pickFeatures_request [where this = sampleDynamicProvider and core = sampleCore
      and tx = 2 and ty = 3 and lev = 5 and lon = 1 and lat = 2 and fetched = "[]"]
  by (simp add: samplePickProvider_def sampleDynamicProvider_fields sampleCore_fields
      showInt_eval)

text \<open>
  Claim C10. \<open>getTileCredits\<close> of the ArcGIS provider returns \<open>undefined\<close> for every provider
  and every tile coordinate.
\<close>

theorem arcgis_getTileCredits_undefined:
  "getTileCredits this tx ty lev = None"
  by (simp add: getTileCredits_def)

section \<open>Credits of the Bing Maps provider\<close>

lemma coverageAreasLoop_eq:
  "coverageAreasLoop core lev rect areas included \<longleftrightarrow>
    included \<or> (\<exists>area \<in> set areas. zoomMin area \<le> lev \<and> lev \<le> zoomMax area
                   \<and> intersection core rect (bbox area) \<noteq> None)"
  by (induction areas arbitrary: included) auto

lemma attributionLoop_eq:
  "attributionLoop core lev rect attributionList result =
    result @ map attributionCredit
      (filter (\<lambda>a. \<exists>area \<in> set (coverageAreas a). zoomMin area \<le> lev \<and> lev \<le> zoomMax area
                       \<and> intersection core rect (bbox area) \<noteq> None) attributionList)"
  by (induction attributionList arbitrary: result) (auto simp add: coverageAreasLoop_eq Let_def)

text \<open>
  Claim C3, as amended. \<open>getRectangleAttribution\<close> returns the credits of exactly those
  attribution entries that have a coverage area with \<open>zoomMin \<le> level + 1 \<le> zoomMax\<close> whose
  bounding box intersects the query rectangle, one credit for each such entry, in the order
  of the attribution list; \<open>getTileCredits\<close> is this function at the rectangle of the tile.
  The result has no duplicates whenever the credits of the attribution list are pairwise
  distinct.
\<close>

theorem getRectangleAttribution_credits:
  "getRectangleAttribution core attributionList lev rect =
     map attributionCredit
       (filter (\<lambda>a. \<exists>area \<in> set (coverageAreas a).
                        zoomMin area \<le> lev + 1 \<and> lev + 1 \<le> zoomMax area
                        \<and> intersection core rect (bbox area) \<noteq> None) attributionList)
   \<and> BingMaps_getTileCredits core this tx ty lev =
       getRectangleAttribution core (bing_attributionList this) lev
         (tileXYToRectangle core (bing_tilingScheme this) tx ty lev)
   \<and> (distinct (map attributionCredit attributionList) \<longrightarrow>
        distinct (getRectangleAttribution core attributionList lev rect))"
proof (intro conjI impI)
  show eq: "getRectangleAttribution core attributionList lev rect =
     map attributionCredit
       (filter (\<lambda>a. \<exists>area \<in> set (coverageAreas a).
                        zoomMin area \<le> lev + 1 \<and> lev + 1 \<le> zoomMax area
                        \<and> intersection core rect (bbox area) \<noteq> None) attributionList)"
    by (simp add: getRectangleAttribution_def attributionLoop_eq)
  show "BingMaps_getTileCredits core this tx ty lev =
       getRectangleAttribution core (bing_attributionList this) lev
         (tileXYToRectangle core (bing_tilingScheme this) tx ty lev)"
    by (simp add: BingMaps_getTileCredits_def)
  assume "distinct (map attributionCredit attributionList)"
  then show "distinct (getRectangleAttribution core attributionList lev rect)"
    unfolding eq by (rule distinct_map_filter)
qed

theorem getRectangleAttribution_credits_witness:
  "distinct (map attributionCredit (tl sampleAttributionList))
   \<and> getRectangleAttribution sampleCore (tl sampleAttributionList) 5 sampleRectangle =
       [Credit ''Imagery A'', Credit ''Imagery B'']
   \<and> distinct (getRectangleAttribution sampleCore (tl sampleAttributionList) 5 sampleRectangle)"
proof -
  have d: "distinct (map attributionCredit (tl sampleAttributionList))"
    by (simp add: sampleAttributionList_def)
  note inst = getRectangleAttribution_credits [where core = sampleCore
      and attributionList = "tl sampleAttributionList" and lev = 5 and rect = sampleRectangle]
  have "getRectangleAttribution sampleCore (tl sampleAttributionList) 5 sampleRectangle =
       [Credit ''Imagery A'', Credit ''Imagery B'']"
    unfolding inst [THEN conjunct1]
    by (simp add: sampleAttributionList_def sampleRectangle_def sampleCore_intersection)
  moreover have
    "distinct (getRectangleAttribution sampleCore (tl sampleAttributionList) 5 sampleRectangle)"
    using inst [THEN conjunct2, THEN conjunct2] d by (rule mp)
  ultimately show ?thesis using d by simp
qed

text \<open>
  Two entries of the attribution list with the same credit both qualify at level 0: the
  result holds that credit twice.
\<close>

theorem getRectangleAttribution_duplicate_credit:
  "getRectangleAttribution sampleCore sampleAttributionList 0 sampleRectangle =
     [Credit ''Imagery A'', Credit ''Imagery A'']
   \<and> \<not> distinct (getRectangleAttribution sampleCore sampleAttributionList 0 sampleRectangle)"
proof -
  have "getRectangleAttribution sampleCore sampleAttributionList 0 sampleRectangle =
     [Credit ''Imagery A'', Credit ''Imagery A'']"
    by (simp add: getRectangleAttribution_def attributionLoop_eq sampleAttributionList_def
        sampleRectangle_def sampleCore_intersection)
  then show ?thesis by simp
qed

section \<open>Metadata requests and the metadata cache\<close>

lemma fetchCount_append:
  "fetchCount core key (fetched @ [FetchJsonp r]) =
    fetchCount core key fetched + (if resourceUrl core r = key then 1 else 0)"
  by (simp add: fetchCount_def)

lemma requestMetadata_fetch_cached:
  "metadataCache process (resourceUrl core metadataResource) = Some promise \<Longrightarrow>
    BingMaps_requestMetadata_fetch core metadataResource process = (promise, process)"
  by (simp add: BingMaps_requestMetadata_fetch_def)

lemma requestMetadata_fetch_invariant:
  assumes "\<forall>k. fetchCount core k (bingFetched process) =
             (if k \<in> dom (metadataCache process) then 1 else 0)"
  shows "(\<forall>k. fetchCount core k
               (bingFetched (snd (BingMaps_requestMetadata_fetch core metadataResource process))) =
             (if k \<in> dom (metadataCache
                   (snd (BingMaps_requestMetadata_fetch core metadataResource process)))
              then 1 else 0))
       \<and> dom (metadataCache (snd (BingMaps_requestMetadata_fetch core metadataResource process))) =
           insert (resourceUrl core metadataResource) (dom (metadataCache process))"
proof (cases "metadataCache process (resourceUrl core metadataResource)")
  case None
  then have fresh: "resourceUrl core metadataResource \<notin> dom (metadataCache process)"
    by (simp add: domIff)
  show ?thesis
    using assms None fresh
    by (auto simp add: BingMaps_requestMetadata_fetch_def Let_def fetchCount_append)
next
  case (Some promise)
  then have "resourceUrl core metadataResource \<in> dom (metadataCache process)"
    by (simp add: domIff)
  then show ?thesis
    using assms by (simp add: requestMetadata_fetch_cached [OF Some] insert_absorb)
qed

lemma constructions_invariant:
  "\<forall>k. fetchCount core k (bingFetched process) =
         (if k \<in> dom (metadataCache process) then 1 else 0) \<Longrightarrow>
   fetchCount core key (bingFetched (BingMaps_constructions core metadataResources process)) =
     (if key \<in> dom (metadataCache process) \<union> resourceUrl core ` set metadataResources
      then 1 else 0)"
proof (induction metadataResources arbitrary: process)
  case Nil
  then show ?case by simp
next
  case (Cons r rest)
  note step = requestMetadata_fetch_invariant [OF Cons.prems, of r]
  show ?case
    using Cons.IH [OF step [THEN conjunct1]] step [THEN conjunct2]
    by simp
qed

text \<open>
  Claim C8, as amended. For the Bing Maps provider, however many constructions call
  \<open>requestMetadata\<close> before any answer arrives, and in whatever order, the transport is
  invoked exactly once for every metadata URL that is requested and never for another
  URL; a call that finds its URL in the cache returns the cached promise and leaves the
  process state unchanged. The ArcGIS provider has no cache: each call of its
  \<open>requestMetadata\<close> invokes the transport once.
\<close>

theorem metadata_fetch_once_per_key:
  "fetchCount core key
     (bingFetched (BingMaps_constructions core metadataResources initialBingProcess)) =
     (if key \<in> resourceUrl core ` set metadataResources then 1 else 0)
   \<and> (metadataCache process (resourceUrl core metadataResource) = Some promise \<longrightarrow>
        BingMaps_requestMetadata_fetch core metadataResource process = (promise, process))
   \<and> snd (requestMetadata core server resource imageryProviderBuilder fetched) =
       fetched @ [FetchJsonp (DerivedResource resource
         \<lparr> url = [], request = None, queryParameters = [(''f'', QString ''json'')] \<rparr>)]"
proof (intro conjI impI)
  have "\<forall>k. fetchCount core k (bingFetched initialBingProcess) =
         (if k \<in> dom (metadataCache initialBingProcess) then 1 else 0)"
    by (simp add: initialBingProcess_def fetchCount_def)
  from constructions_invariant [OF this]
  show "fetchCount core key
     (bingFetched (BingMaps_constructions core metadataResources initialBingProcess)) =
     (if key \<in> resourceUrl core ` set metadataResources then 1 else 0)"
    by (simp add: initialBingProcess_def)
next
  assume "metadataCache process (resourceUrl core metadataResource) = Some promise"
  then show "BingMaps_requestMetadata_fetch core metadataResource process = (promise, process)"
    by (rule requestMetadata_fetch_cached)
next
  show "snd (requestMetadata core server resource imageryProviderBuilder fetched) =
       fetched @ [FetchJsonp (DerivedResource resource
         \<lparr> url = [], request = None, queryParameters = [(''f'', QString ''json'')] \<rparr>)]"
    by (simp add: requestMetadata_def Let_def split: sum.split)
qed

theorem metadata_fetch_once_per_key_witness:
  "fetchCount sampleCore ''http://host/REST/v1/Imagery/Metadata/Aerial''
     (bingFetched (BingMaps_constructions sampleCore
        [Resource ''http://host/REST/v1/Imagery/Metadata/Aerial'',
         Resource ''http://host/REST/v1/Imagery/Metadata/Aerial'']
        initialBingProcess)) = 1
   \<and> BingMaps_requestMetadata_fetch sampleCore
       (Resource ''http://host/REST/v1/Imagery/Metadata/Aerial'')
       (snd (BingMaps_requestMetadata_fetch sampleCore
          (Resource ''http://host/REST/v1/Imagery/Metadata/Aerial'') initialBingProcess)) =
     (JsonpPromise (Resource ''http://host/REST/v1/Imagery/Metadata/Aerial''),
      snd (BingMaps_requestMetadata_fetch sampleCore
          (Resource ''http://host/REST/v1/Imagery/Metadata/Aerial'') initialBingProcess))"
proof -
  have cached: "metadataCache
      (snd (BingMaps_requestMetadata_fetch sampleCore
          (Resource ''http://host/REST/v1/Imagery/Metadata/Aerial'') initialBingProcess))
      (resourceUrl sampleCore (Resource ''http://host/REST/v1/Imagery/Metadata/Aerial'')) =
      Some (JsonpPromise (Resource ''http://host/REST/v1/Imagery/Metadata/Aerial''))"
    by (simp add: BingMaps_requestMetadata_fetch_def initialBingProcess_def Let_def)
  have "fetchCount sampleCore ''http://host/REST/v1/Imagery/Metadata/Aerial''
     (bingFetched (BingMaps_constructions sampleCore
        [Resource ''http://host/REST/v1/Imagery/Metadata/Aerial'',
         Resource ''http://host/REST/v1/Imagery/Metadata/Aerial'']
        initialBingProcess)) = 1"
    unfolding metadata_fetch_once_per_key [THEN conjunct1]
    by (simp add: sampleCore_fields)
  moreover have "BingMaps_requestMetadata_fetch sampleCore
       (Resource ''http://host/REST/v1/Imagery/Metadata/Aerial'')
       (snd (BingMaps_requestMetadata_fetch sampleCore
          (Resource ''http://host/REST/v1/Imagery/Metadata/Aerial'') initialBingProcess)) =
     (JsonpPromise (Resource ''http://host/REST/v1/Imagery/Metadata/Aerial''),
      snd (BingMaps_requestMetadata_fetch sampleCore
          (Resource ''http://host/REST/v1/Imagery/Metadata/Aerial'') initialBingProcess))"
    using metadata_fetch_once_per_key [THEN conjunct2, THEN conjunct1, THEN mp, OF cached] .
  ultimately show ?thesis by (rule conjI)
qed

text \<open>
  Two constructions of the ArcGIS provider from the same address fetch the capability
  document twice.
\<close>

theorem arcgis_metadata_fetched_twice:
  "snd (fromUrl sampleCore sampleServer ''http://host/'' sampleOptions
         (snd (fromUrl sampleCore sampleServer ''http://host/'' sampleOptions []))) =
     [FetchJsonp (DerivedResource (Resource ''http://host/'')
        \<lparr> url = [], request = None, queryParameters = [(''f'', QString ''json'')] \<rparr>),
      FetchJsonp (DerivedResource (Resource ''http://host/'')
        \<lparr> url = [], request = None, queryParameters = [(''f'', QString ''json'')] \<rparr>)]
   \<and> fetchCount sampleCore ''http://host/''
       (snd (fromUrl sampleCore sampleServer ''http://host/'' sampleOptions
         (snd (fromUrl sampleCore sampleServer ''http://host/'' sampleOptions [])))) = 2"
proof -
  have one: "\<And>fetched. snd (fromUrl sampleCore sampleServer ''http://host/'' sampleOptions fetched) =
      fetched @ [FetchJsonp (DerivedResource (Resource ''http://host/'')
        \<lparr> url = [], request = None, queryParameters = [(''f'', QString ''json'')] \<rparr>)]"
    by (simp add: fromUrl_def requestMetadata_def sampleServer_def sampleDynamicData_def
        metadataSuccess_def sampleOptions_def defaultValue_def Let_def)
  show ?thesis
    by (simp add: one fetchCount_def sampleCore_fields)
qed

end
